theory Spec2Isabelle
  imports Main
begin

section \<open>Values exchanged with the oracle facade\<close>

text \<open>
  The oracle facade returns parsed JSON (\<^verbatim>\<open>json.loads\<close> in the provider), or
  \<^verbatim>\<open>None\<close> (\<open>JNull\<close>). A JSON object is an association list read with \<open>map_of\<close>; its
  length counts distinct keys. Numbers are never inspected by the code modelled here,
  only told apart from containers, so one constructor stands for int and float.
  Strings are only compared and searched for the ASCII names the code uses.
\<close>

datatype json =
    JNull
  | JBool bool
  | JNum int
  | JStr string
  | JList "json list"
  | JObj "(string \<times> json) list"

text \<open>
  An f-string is the list of its parts: literal text and interpolated values.
  \<^verbatim>\<open>str(e)\<close> of an exception is the text it was raised with.
\<close>

datatype part = Lit string | Val json

type_synonym message = "part list"

text \<open>
  Exceptions by class, as the \<^verbatim>\<open>except\<close> clauses tell them apart. \<open>ValueError\<close> and
  \<open>ProcessException\<close> stand for the class and its subclasses; \<open>PyException\<close> is a plain
  \<^verbatim>\<open>Exception(...)\<close> or any other class the handlers of this code do not name.
  The texts of errors raised by the interpreter itself are schematic.
\<close>

datatype error =
    ValueError message
  | KeyError message
  | TypeError message
  | AttributeError message
  | ProcessException message
  | PyException message

fun str_of :: "error \<Rightarrow> message" where
  "str_of (ValueError m) = m"
| "str_of (KeyError m) = m"
| "str_of (TypeError m) = m"
| "str_of (AttributeError m) = m"
| "str_of (ProcessException m) = m"
| "str_of (PyException m) = m"

subsection \<open>The Python operations the code applies to these values\<close>

fun starts_with :: "string \<Rightarrow> string \<Rightarrow> bool" where
  "starts_with s [] = True"
| "starts_with [] (c # p) = False"
| "starts_with (d # s) (c # p) = (d = c \<and> starts_with s p)"

fun substring_of :: "string \<Rightarrow> string \<Rightarrow> bool" where
  "substring_of p [] = (p = [])"
| "substring_of p (d # s) = (starts_with (d # s) p \<or> substring_of p s)"

definition keys :: "(string \<times> json) list \<Rightarrow> string list" where
  "keys kvs = remdups (map fst kvs)"

text \<open>\<^verbatim>\<open>key in x\<close> for a string key: dict membership, list membership, substring.\<close>

fun py_in :: "string \<Rightarrow> json \<Rightarrow> error + bool" where
  "py_in k (JObj kvs) = Inr (k \<in> set (keys kvs))"
| "py_in k (JList xs) = Inr (JStr k \<in> set xs)"
| "py_in k (JStr s) = Inr (substring_of k s)"
| "py_in k v = Inl (TypeError [Lit ''argument is not iterable: '', Val v])"

definition py_not_in :: "string \<Rightarrow> json \<Rightarrow> error + bool" where
  "py_not_in k x = (case py_in k x of Inl e \<Rightarrow> Inl e | Inr b \<Rightarrow> Inr (\<not> b))"

text \<open>\<^verbatim>\<open>x[key]\<close> for a string key. \<^verbatim>\<open>str(e)\<close> of the \<open>KeyError\<close> of a missing key is the
  key between single quotes.\<close>

definition quoted :: "string \<Rightarrow> string" where
  "quoted k = [CHR 0x27] @ k @ [CHR 0x27]"

fun getitem :: "json \<Rightarrow> string \<Rightarrow> error + json" where
  "getitem (JObj kvs) k =
     (case map_of kvs k of None \<Rightarrow> Inl (KeyError [Lit (quoted k)]) | Some v \<Rightarrow> Inr v)"
| "getitem v k = Inl (TypeError [Lit ''bad subscript: '', Val v])"

text \<open>\<^verbatim>\<open>for y in x\<close>: the items of a list, the keys of a dict, the characters of a string.\<close>

fun py_iter :: "json \<Rightarrow> error + json list" where
  "py_iter (JList xs) = Inr xs"
| "py_iter (JObj kvs) = Inr (map JStr (keys kvs))"
| "py_iter (JStr s) = Inr (map (\<lambda>c. JStr [c]) s)"
| "py_iter v = Inl (TypeError [Lit ''object is not iterable: '', Val v])"

fun py_len :: "json \<Rightarrow> error + nat" where
  "py_len (JList xs) = Inr (length xs)"
| "py_len (JObj kvs) = Inr (length (keys kvs))"
| "py_len (JStr s) = Inr (length s)"
| "py_len v = Inl (TypeError [Lit ''object has no len: '', Val v])"

definition len_gt :: "json \<Rightarrow> nat \<Rightarrow> error + bool" where
  "len_gt x n = (case py_len x of Inl e \<Rightarrow> Inl e | Inr l \<Rightarrow> Inr (l > n))"

text \<open>Short-circuit \<^verbatim>\<open>and\<close> / \<^verbatim>\<open>or\<close>: the right operand is not evaluated, so cannot
  raise, when the left one decides.\<close>

definition py_and :: "error + bool \<Rightarrow> error + bool \<Rightarrow> error + bool" where
  "py_and a b = (case a of Inl e \<Rightarrow> Inl e | Inr x \<Rightarrow> if x then b else Inr False)"

definition py_or :: "error + bool \<Rightarrow> error + bool \<Rightarrow> error + bool" where
  "py_or a b = (case a of Inl e \<Rightarrow> Inl e | Inr x \<Rightarrow> if x then Inr True else b)"

text \<open>\<^verbatim>\<open>if c: t  else: e\<close> where evaluating the condition may raise.\<close>

definition py_if :: "error + bool \<Rightarrow> error + 'a \<Rightarrow> error + 'a \<Rightarrow> error + 'a" where
  "py_if c t e = (case c of Inl err \<Rightarrow> Inl err | Inr b \<Rightarrow> if b then t else e)"

section \<open>The edit proposal validator\<close>

text \<open>\<^verbatim>\<open>BpmnEditorService._validate_llm_response\<close>.\<close>

definition validate_llm_response :: "json \<Rightarrow> bool \<Rightarrow> error + bool" where
  "validate_llm_response response is_first_edit =
    py_if (py_and (Inr (\<not> is_first_edit)) (py_in ''stop'' response))
      (Inr True)
   (py_if (py_and (py_or (py_not_in ''function'' response) (py_not_in ''arguments'' response))
                  (py_not_in ''stop'' response))
      (Inl (ValueError
        [Lit ''Function call should contain 'function' and 'arguments' keys, or a 'stop' key.'']))
   (case getitem response ''function'' of Inl e \<Rightarrow> Inl e | Inr function_to_call \<Rightarrow>
   (case getitem response ''arguments'' of Inl e \<Rightarrow> Inl e | Inr args \<Rightarrow>
    if function_to_call = JStr ''delete_element'' then
      py_if (py_not_in ''element_id'' args)
        (Inl (ValueError [Lit ''Arguments should contain 'element_id' key.'']))
     (py_if (len_gt args 1)
        (Inl (ValueError [Lit ''Arguments should contain only 'element_id' key.'']))
        (Inr True))
    else if function_to_call = JStr ''redirect_branch'' then
      py_if (py_or (py_not_in ''branch_condition'' args) (py_not_in ''next_id'' args))
        (Inl (ValueError [Lit ''Arguments should contain 'branch_condition' and 'next_id' keys.'']))
     (py_if (len_gt args 2)
        (Inl (ValueError
          [Lit ''Arguments should contain only 'branch_condition' and 'next_id' keys.'']))
        (Inr True))
    else if function_to_call = JStr ''add_element'' then
      py_if (py_not_in ''element'' args)
        (Inl (ValueError [Lit ''Arguments should contain 'element' key.'']))
     (py_if (py_and (py_in ''before_id'' args) (py_in ''after_id'' args))
        (Inl (ValueError [Lit ''Only one of 'before_id' and 'after_id' should be provided.'']))
     (py_if (py_and (py_not_in ''before_id'' args) (py_not_in ''after_id'' args))
        (Inl (ValueError [Lit ''Either 'before_id' or 'after_id' should be provided.'']))
     (py_if (len_gt args 2)
        (Inl (ValueError
          [Lit ''Arguments should contain only 'element' and either 'before_id' or 'after_id' keys.'']))
        (Inr True))))
    else if function_to_call = JStr ''move_element'' then
      py_if (py_not_in ''element_id'' args)
        (Inl (ValueError [Lit ''Arguments should contain 'element_id' key.'']))
     (py_if (py_and (py_in ''before_id'' args) (py_in ''after_id'' args))
        (Inl (ValueError [Lit ''Only one of 'before_id' and 'after_id' should be provided.'']))
     (py_if (py_and (py_not_in ''before_id'' args) (py_not_in ''after_id'' args))
        (Inl (ValueError [Lit ''Either 'before_id' or 'after_id' should be provided.'']))
     (py_if (len_gt args 2)
        (Inl (ValueError
          [Lit ''Arguments should contain only 'element_id' and either 'before_id' or 'after_id' keys.'']))
        (Inr True))))
    else if function_to_call = JStr ''update_element'' then
      py_if (py_not_in ''new_element'' args)
        (Inl (ValueError [Lit ''Arguments should contain 'new_element' key.'']))
     (py_if (len_gt args 1)
        (Inl (ValueError [Lit ''Arguments should contain only 'new_element' key.'']))
        (Inr True))
    else Inl (ValueError [Lit (''Function '' @ [CHR 0x27]), Val function_to_call, Lit (CHR 0x27 # '' not found.'')]))))"

section \<open>The oracle facade, the logger and the edit function library\<close>

text \<open>
  \<^verbatim>\<open>prepare_prompt\<close> (module bpmn_assistant.utils, source not available) renders a template; its
  result is only handed to the facade, so the call is kept as the term \<open>Prepared\<close>.
  Every other prompt is an f-string.
\<close>

datatype prompt = Prepared string "(string \<times> message) list" | Plain message

text \<open>
  Effects are recorded in a trace, most recent first: each \<^verbatim>\<open>llm_facade.call(prompt)\<close>
  and each \<^verbatim>\<open>logger\<close> record.
\<close>

datatype level = Debug | Info | Warning

datatype event = Call prompt | Log level message

type_synonym trace = "event list"

fun warnings :: "trace \<Rightarrow> message list" where
  "warnings [] = []"
| "warnings (Log Warning m # tr) = m # warnings tr"
| "warnings (e # tr) = warnings tr"

text \<open>\<^verbatim>\<open>f"Validation error (attempt {attempts}): {error_message}"\<close>.\<close>

definition validation_warning :: "nat \<Rightarrow> message \<Rightarrow> message" where
  "validation_warning attempts error_message =
     [Lit ''Validation error (attempt '', Val (JNum (int attempts)), Lit ''): ''] @ error_message"

fun calls :: "trace \<Rightarrow> prompt list" where
  "calls [] = []"
| "calls (Call p # tr) = p # calls tr"
| "calls (Log l m # tr) = calls tr"

text \<open>
  The facade (\<^verbatim>\<open>LLMFacade\<close>, source not available) is any behaviour: what a call raises or
  returns may depend on every prompt it has been sent, the current one first.
\<close>

type_synonym facade = "prompt list \<Rightarrow> error + json"

definition call :: "facade \<Rightarrow> prompt \<Rightarrow> trace \<Rightarrow> (error + json) \<times> trace" where
  "call llm_facade p tr = (llm_facade (p # calls tr), Call p # tr)"

text \<open>
  The five edit functions (module bpmn_assistant.services.process_editing, source not available)
  are parameters: each takes the process and the keyword arguments and returns a
  result object or raises.
\<close>

type_synonym edit_function = "json \<Rightarrow> (string \<times> json) list \<Rightarrow> error + json"

record library =
  delete_element :: edit_function
  redirect_branch :: edit_function
  add_element :: edit_function
  move_element :: edit_function
  update_element :: edit_function

text \<open>The dict \<^verbatim>\<open>edit_functions\<close> of \<^verbatim>\<open>_update_process\<close>, indexed by any value.\<close>

definition edit_functions :: "library \<Rightarrow> json \<Rightarrow> error + edit_function" where
  "edit_functions lib function_to_call =
    (if function_to_call = JStr ''delete_element'' then Inr (delete_element lib)
     else if function_to_call = JStr ''redirect_branch'' then Inr (redirect_branch lib)
     else if function_to_call = JStr ''add_element'' then Inr (add_element lib)
     else if function_to_call = JStr ''move_element'' then Inr (move_element lib)
     else if function_to_call = JStr ''update_element'' then Inr (update_element lib)
     else (case function_to_call of
             JList xs \<Rightarrow> Inl (TypeError [Lit ''unhashable type: '', Val function_to_call])
           | JObj kvs \<Rightarrow> Inl (TypeError [Lit ''unhashable type: '', Val function_to_call])
           | _ \<Rightarrow> Inl (KeyError [Val function_to_call])))"

text \<open>\<^verbatim>\<open>**args\<close>: the argument must be a mapping.\<close>

fun kwargs :: "json \<Rightarrow> error + (string \<times> json) list" where
  "kwargs (JObj kvs) = Inr kvs"
| "kwargs v = Inl (TypeError [Lit ''argument after ** must be a mapping: '', Val v])"

text \<open>\<^verbatim>\<open>BpmnEditorService._update_process\<close>.\<close>

definition update_process :: "library \<Rightarrow> json \<Rightarrow> json \<Rightarrow> error + json" where
  "update_process lib process edit_proposal =
    (case getitem edit_proposal ''function'' of Inl e \<Rightarrow> Inl e | Inr function_to_call \<Rightarrow>
    (case getitem edit_proposal ''arguments'' of Inl e \<Rightarrow> Inl e | Inr args \<Rightarrow>
    (case edit_functions lib function_to_call of Inl e \<Rightarrow> Inl e | Inr f \<Rightarrow>
    (case kwargs args of Inl e \<Rightarrow> Inl e | Inr kw \<Rightarrow>
    (case f process kw of Inl e \<Rightarrow> Inl e | Inr res \<Rightarrow> getitem res ''process'')))))"

section \<open>The edit orchestrator\<close>

text \<open>The fields of \<^verbatim>\<open>BpmnEditorService\<close>.\<close>

record service =
  self_llm_facade :: facade
  self_process :: json
  self_change_request :: string

text \<open>The \<^verbatim>\<open>while attempts < max_retries\<close> loop of
  \<^verbatim>\<open>_attempt_process_update_with_retries\<close>.\<close>

function update_loop ::
  "service \<Rightarrow> library \<Rightarrow> json \<Rightarrow> json \<Rightarrow> nat \<Rightarrow> nat \<Rightarrow> trace \<Rightarrow> (error + json) \<times> trace" where
  "update_loop self lib process edit_proposal attempts max_retries tr =
    (if attempts < max_retries then
       (case update_process lib process edit_proposal of
          Inr updated_process \<Rightarrow> (Inr updated_process, tr)
        | Inl (ProcessException error_message) \<Rightarrow>
           (case call (self_llm_facade self)
                   (Plain ([Lit ''Error: ''] @ error_message @
                           [Lit ''. Try again. Change request: '', Lit (self_change_request self)]))
                   (Log Warning (validation_warning (attempts + 1) error_message) # tr) of
              (Inl e, tr1) \<Rightarrow> (Inl e, tr1)
            | (Inr new_proposal, tr1) \<Rightarrow>
               (case py_in ''stop'' new_proposal of
                  Inl e \<Rightarrow> (Inl e, Log Info [Lit ''New edit proposal: '', Val new_proposal] # tr1)
                | Inr stop \<Rightarrow>
                   if stop
                   then (Inr process, Log Info [Lit ''New edit proposal: '', Val new_proposal] # tr1)
                   else update_loop self lib process new_proposal (attempts + 1) max_retries
                          (Log Info [Lit ''New edit proposal: '', Val new_proposal] # tr1)))
        | Inl e \<Rightarrow> (Inl e, tr))
     else (Inl (PyException [Lit ''Max number of retries reached. Process not fully edited.'']), tr))"
  by pat_completeness auto
termination
  by (relation "measure (\<lambda>(self, lib, process, edit_proposal, attempts, max_retries, tr).
                           max_retries - attempts)") auto

declare update_loop.simps [simp del]

text \<open>\<^verbatim>\<open>BpmnEditorService._attempt_process_update_with_retries\<close>.\<close>

definition attempt_process_update_with_retries ::
  "service \<Rightarrow> library \<Rightarrow> json \<Rightarrow> json \<Rightarrow> nat \<Rightarrow> trace \<Rightarrow> (error + json) \<times> trace" where
  "attempt_process_update_with_retries self lib process edit_proposal max_retries tr =
     update_loop self lib process edit_proposal 0 max_retries tr"

text \<open>The \<^verbatim>\<open>while attempts < max_retries\<close> loop of \<^verbatim>\<open>_get_initial_edit_proposal\<close>;
  \<open>response\<close> is the proposal under validation.\<close>

function initial_loop ::
  "service \<Rightarrow> json \<Rightarrow> nat \<Rightarrow> nat \<Rightarrow> trace \<Rightarrow> (error + json) \<times> trace" where
  "initial_loop self response attempts max_retries tr =
    (if attempts < max_retries then
       (case validate_llm_response response True of
          Inr ok \<Rightarrow> (Inr response, tr)
        | Inl (ValueError error_message) \<Rightarrow>
           (case call (self_llm_facade self)
                   (Plain ([Lit ''Editing error: ''] @ error_message @
                           [Lit ''. Please provide a new edit proposal.'']))
                   (Log Warning (validation_warning (attempts + 1) error_message) # tr) of
              (Inl e, tr1) \<Rightarrow> (Inl e, tr1)
            | (Inr new_response, tr1) \<Rightarrow>
                initial_loop self new_response (attempts + 1) max_retries
                  (Log Info [Lit ''New initial edit proposal: '', Val new_response] # tr1))
        | Inl e \<Rightarrow> (Inl e, tr))
     else (Inl (PyException [Lit ''Max number of retries reached.'']), tr))"
  by pat_completeness auto
termination
  by (relation "measure (\<lambda>(self, response, attempts, max_retries, tr). max_retries - attempts)")
    auto

declare initial_loop.simps [simp del]

text \<open>\<^verbatim>\<open>BpmnEditorService._get_initial_edit_proposal\<close>.\<close>

definition get_initial_edit_proposal ::
  "service \<Rightarrow> nat \<Rightarrow> trace \<Rightarrow> (error + json) \<times> trace" where
  "get_initial_edit_proposal self max_retries tr =
    (case call (self_llm_facade self)
            (Prepared ''edit_bpmn.txt''
               [(''process'', [Val (self_process self)]),
                (''change_request'', [Lit (self_change_request self)])]) tr of
       (Inl e, tr1) \<Rightarrow> (Inl e, tr1)
     | (Inr response, tr1) \<Rightarrow>
         initial_loop self response 0 max_retries
           (Log Info [Lit ''Initial edit proposal: '', Val response] # tr1))"

text \<open>The prompt of an attempt in \<^verbatim>\<open>_get_intermediate_edit_proposal\<close>: the template
  on the first attempt, the error feedback afterwards.\<close>

definition intermediate_prompt :: "nat \<Rightarrow> json \<Rightarrow> message \<Rightarrow> prompt" where
  "intermediate_prompt attempts updated_process error_message =
    (if attempts = 1
     then Prepared ''edit_bpmn_intermediate_step.txt'' [(''process'', [Val updated_process])]
     else Plain ([Lit ''Editing error: ''] @ error_message @
                 [Lit ''. Please provide a new edit proposal.'']))"

text \<open>The loop of \<^verbatim>\<open>_get_intermediate_edit_proposal\<close>. The call and the validation
  stand in one \<^verbatim>\<open>try\<close>, so a \<open>ValueError\<close> of either is handled; \<open>error_message\<close>
  is read only from the second attempt on.\<close>

function intermediate_loop ::
  "service \<Rightarrow> json \<Rightarrow> message \<Rightarrow> nat \<Rightarrow> nat \<Rightarrow> trace \<Rightarrow> (error + json) \<times> trace" where
  "intermediate_loop self updated_process error_message attempts max_retries tr =
    (if attempts < max_retries then
       (case call (self_llm_facade self)
               (intermediate_prompt (attempts + 1) updated_process error_message) tr of
          (Inl (ValueError m), tr1) \<Rightarrow>
            intermediate_loop self updated_process m (attempts + 1) max_retries
              (Log Warning (validation_warning (attempts + 1) m) # tr1)
        | (Inl e, tr1) \<Rightarrow> (Inl e, tr1)
        | (Inr response, tr1) \<Rightarrow>
           (case validate_llm_response response False of
              Inr ok \<Rightarrow> (Inr response, Log Info [Lit ''Intermediate edit proposal: '', Val response] # tr1)
            | Inl (ValueError m) \<Rightarrow>
                intermediate_loop self updated_process m (attempts + 1) max_retries
                  (Log Warning (validation_warning (attempts + 1) m)
                   # Log Info [Lit ''Intermediate edit proposal: '', Val response] # tr1)
            | Inl e \<Rightarrow> (Inl e, Log Info [Lit ''Intermediate edit proposal: '', Val response] # tr1)))
     else (Inl (PyException [Lit ''Max number of retries reached.'']), tr))"
  by pat_completeness auto
termination
  by (relation "measure (\<lambda>(self, updated_process, error_message, attempts, max_retries, tr).
                           max_retries - attempts)") auto

declare intermediate_loop.simps [simp del]

text \<open>\<^verbatim>\<open>BpmnEditorService._get_intermediate_edit_proposal\<close>.\<close>

definition get_intermediate_edit_proposal ::
  "service \<Rightarrow> json \<Rightarrow> nat \<Rightarrow> trace \<Rightarrow> (error + json) \<times> trace" where
  "get_intermediate_edit_proposal self updated_process max_retries tr =
     intermediate_loop self updated_process [] 0 max_retries tr"

text \<open>\<^verbatim>\<open>BpmnEditorService._apply_intermediate_edits\<close>: the
  \<^verbatim>\<open>for _ in range(max_num_of_iterations)\<close> loop, by the iterations left. The inner
  calls take their default \<^verbatim>\<open>max_retries=3\<close>.\<close>

fun apply_intermediate_edits ::
  "service \<Rightarrow> library \<Rightarrow> json \<Rightarrow> nat \<Rightarrow> trace \<Rightarrow> (error + json) \<times> trace" where
  "apply_intermediate_edits self lib updated_process 0 tr =
     (Inl (PyException [Lit ''Max number of iterations reached. Process not fully edited.'']), tr)"
| "apply_intermediate_edits self lib updated_process (Suc n) tr =
    (case get_intermediate_edit_proposal self updated_process 3 tr of
       (Inl e, tr1) \<Rightarrow> (Inl e, tr1)
     | (Inr response, tr1) \<Rightarrow>
        (case py_in ''stop'' response of
           Inl e \<Rightarrow> (Inl e, tr1)
         | Inr stop \<Rightarrow>
            if stop then (Inr updated_process, Log Info [Lit ''Edit process stopped.''] # tr1)
            else (case attempt_process_update_with_retries self lib updated_process response 3 tr1 of
                    (Inl e, tr2) \<Rightarrow> (Inl e, tr2)
                  | (Inr new_process, tr2) \<Rightarrow> apply_intermediate_edits self lib new_process n tr2)))"

text \<open>\<^verbatim>\<open>BpmnEditorService._apply_initial_edit\<close>.\<close>

definition apply_initial_edit :: "service \<Rightarrow> library \<Rightarrow> trace \<Rightarrow> (error + json) \<times> trace" where
  "apply_initial_edit self lib tr =
    (case get_initial_edit_proposal self 3 tr of
       (Inl e, tr1) \<Rightarrow> (Inl e, tr1)
     | (Inr response, tr1) \<Rightarrow>
         attempt_process_update_with_retries self lib (self_process self) response 3 tr1)"

text \<open>\<^verbatim>\<open>BpmnEditorService.edit_bpmn\<close>.\<close>

definition edit_bpmn :: "service \<Rightarrow> library \<Rightarrow> trace \<Rightarrow> (error + json) \<times> trace" where
  "edit_bpmn self lib tr =
    (case apply_initial_edit self lib tr of
       (Inl e, tr1) \<Rightarrow> (Inl e, tr1)
     | (Inr updated_process, tr1) \<Rightarrow> apply_intermediate_edits self lib updated_process 7 tr1)"

section \<open>The process validator\<close>

text \<open>A \<^verbatim>\<open>for\<close> loop whose body may raise: it ends at the first raise.\<close>

fun for_each :: "'a list \<Rightarrow> ('a \<Rightarrow> error + unit) \<Rightarrow> error + unit" where
  "for_each [] body = Inr ()"
| "for_each (x # xs) body = (case body x of Inl e \<Rightarrow> Inl e | Inr u \<Rightarrow> for_each xs body)"

lemma for_each_cong [fundef_cong]:
  "xs = ys \<Longrightarrow> (\<And>x. x \<in> set ys \<Longrightarrow> f x = g x) \<Longrightarrow> for_each xs f = for_each ys g"
  by (induction ys arbitrary: xs) (auto split: sum.splits)

text \<open>\<^verbatim>\<open>isinstance(x, list)\<close>.\<close>

fun is_list :: "json \<Rightarrow> bool" where
  "is_list (JList xs) = True"
| "is_list v = False"

text \<open>\<^verbatim>\<open>BpmnModelingService._validate_element\<close>. The values of the enum
  \<^verbatim>\<open>BPMNElementType\<close> (module bpmn_assistant.core.enums, source not available) are the parameter
  \<open>supported_elements\<close>.\<close>

definition validate_element :: "string list \<Rightarrow> json \<Rightarrow> error + unit" where
  "validate_element supported_elements element =
    py_if (py_not_in ''id'' element)
      (Inl (PyException [Lit ''Element is missing an ID: '', Val element]))
   (py_if (py_not_in ''type'' element)
      (Inl (PyException [Lit ''Element is missing a type: '', Val element]))
   (case getitem element ''type'' of Inl e \<Rightarrow> Inl e | Inr ty \<Rightarrow>
    if ty \<notin> set (map JStr supported_elements) then
      Inl (PyException [Lit ''Unsupported element type: '', Val ty,
                        Lit ''. Supported types: '', Val (JList (map JStr supported_elements))])
    else if ty \<in> set [JStr ''task'', JStr ''userTask'', JStr ''serviceTask''] then
      py_if (py_not_in ''label'' element)
        (Inl (PyException [Lit ''Task element is missing a label: '', Val element]))
        (Inr ())
    else if ty = JStr ''exclusiveGateway'' then
      py_if (py_not_in ''label'' element)
        (Inl (PyException [Lit ''Exclusive gateway is missing a label: '', Val element]))
     (py_if (py_or (py_not_in ''branches'' element)
                   (case getitem element ''branches'' of
                      Inl e \<Rightarrow> Inl e | Inr bs \<Rightarrow> Inr (\<not> is_list bs)))
        (Inl (PyException
           [Lit ''Exclusive gateway is missing or has invalid 'branches': '', Val element]))
     (case getitem element ''branches'' of Inl e \<Rightarrow> Inl e | Inr bs \<Rightarrow>
     (case py_iter bs of Inl e \<Rightarrow> Inl e | Inr branches \<Rightarrow>
        for_each branches (\<lambda>branch.
          py_if (py_or (py_not_in ''condition'' branch) (py_not_in ''path'' branch))
            (Inl (PyException [Lit ''Invalid branch in exclusive gateway: '', Val branch]))
            (Inr ())))))
    else if ty = JStr ''parallelGateway'' then
      py_if (py_or (py_not_in ''branches'' element)
                   (case getitem element ''branches'' of
                      Inl e \<Rightarrow> Inl e | Inr bs \<Rightarrow> Inr (\<not> is_list bs)))
        (Inl (PyException
           [Lit ''Parallel gateway is missing or has invalid 'branches': '', Val element]))
        (Inr ())
    else Inr ()))"

lemma size_map_of: "map_of kvs k = Some v \<Longrightarrow> size v < Suc (size_list (size_prod (\<lambda>x. 0) size) kvs)"
  by (induction kvs) (auto split: if_splits)

lemma size_getitem: "getitem x k = Inr v \<Longrightarrow> size v < size x"
  by (cases x) (auto split: option.splits dest: size_map_of)

lemma size_list_member: "y \<in> set ys \<Longrightarrow> size y < Suc (size_list size ys)"
  by (induction ys) auto

lemma size_py_iter: "py_iter x = Inr ys \<Longrightarrow> y \<in> set ys \<Longrightarrow> size y \<le> size x"
  by (cases x) (auto dest: size_list_member)

text \<open>\<^verbatim>\<open>BpmnModelingService._validate_bpmn\<close>; its \<^verbatim>\<open>except Exception as e: raise e\<close>
  re-raises the error unchanged.\<close>

function validate_bpmn :: "string list \<Rightarrow> json \<Rightarrow> error + unit" where
  "validate_bpmn supported_elements process =
    (case py_iter process of Inl e \<Rightarrow> Inl e | Inr elements \<Rightarrow>
       for_each elements (\<lambda>element.
         case validate_element supported_elements element of Inl e \<Rightarrow> Inl e | Inr u \<Rightarrow>
        (case getitem element ''type'' of Inl e \<Rightarrow> Inl e | Inr ty \<Rightarrow>
        (case (if ty = JStr ''exclusiveGateway'' then
                (case getitem element ''branches'' of Inl e \<Rightarrow> Inl e | Inr bs \<Rightarrow>
                (case py_iter bs of Inl e \<Rightarrow> Inl e | Inr branches \<Rightarrow>
                   for_each branches (\<lambda>branch.
                     case getitem branch ''path'' of Inl e \<Rightarrow> Inl e | Inr path \<Rightarrow>
                       validate_bpmn supported_elements path)))
               else Inr ()) of Inl e \<Rightarrow> Inl e | Inr u \<Rightarrow>
         if ty = JStr ''parallelGateway'' then
           (case getitem element ''branches'' of Inl e \<Rightarrow> Inl e | Inr bs \<Rightarrow>
           (case py_iter bs of Inl e \<Rightarrow> Inl e | Inr branches \<Rightarrow>
              for_each branches (\<lambda>branch. validate_bpmn supported_elements branch)))
         else Inr ()))))"
  by pat_completeness auto
termination
proof (relation "measure (\<lambda>(supported_elements, process). size process)")
  show "wf (measure (\<lambda>(supported_elements, process). size process))" by simp
next
  fix supported_elements :: "string list" and process elements element u ty bs branches branch path
  assume "py_iter process = Inr elements" "element \<in> set elements"
    "getitem element ''branches'' = Inr bs" "py_iter bs = Inr branches" "branch \<in> set branches"
    "getitem branch ''path'' = Inr path"
  then have "size path < size branch" "size branch \<le> size bs" "size bs < size element"
    "size element \<le> size process"
    by (auto dest: size_getitem size_py_iter)
  then show "((supported_elements, path), (supported_elements, process))
          \<in> measure (\<lambda>(supported_elements, process). size process)" by simp
next
  fix supported_elements :: "string list" and process elements element u ty bs branches branch
  assume "py_iter process = Inr elements" "element \<in> set elements"
    "getitem element ''branches'' = Inr bs" "py_iter bs = Inr branches" "branch \<in> set branches"
  then have "size branch \<le> size bs" "size bs < size element" "size element \<le> size process"
    by (auto dest: size_getitem size_py_iter)
  then show "((supported_elements, branch), (supported_elements, process))
          \<in> measure (\<lambda>(supported_elements, process). size process)" by simp
qed

declare validate_bpmn.simps [simp del]

section \<open>The creation orchestrator\<close>

text \<open>\<^verbatim>\<open>response.get("process", "No process in response")\<close>, as text for the log.\<close>

fun py_get_process :: "json \<Rightarrow> error + message" where
  "py_get_process (JObj kvs) =
     (case map_of kvs ''process'' of
        None \<Rightarrow> Inr [Lit ''No process in response''] | Some v \<Rightarrow> Inr [Val v])"
| "py_get_process v = Inl (AttributeError [Lit ''object has no attribute get: '', Val v])"

text \<open>The \<^verbatim>\<open>while attempts < max_retries\<close> loop of \<^verbatim>\<open>create_bpmn\<close>. The facade is
  called outside the \<^verbatim>\<open>try\<close>; the handler catches every \<^verbatim>\<open>Exception\<close> of the
  \<^verbatim>\<open>try\<close> block, and what the handler itself raises leaves the function. The text
  of \<^verbatim>\<open>traceback.format_exc()\<close> is schematic.\<close>

function create_loop ::
  "facade \<Rightarrow> string list \<Rightarrow> prompt \<Rightarrow> nat \<Rightarrow> nat \<Rightarrow> trace \<Rightarrow> (error + json) \<times> trace" where
  "create_loop llm_facade supported_elements prompt attempts max_retries tr =
    (if attempts < max_retries then
       (case call llm_facade prompt tr of
          (Inl e, tr1) \<Rightarrow> (Inl e, tr1)
        | (Inr response, tr1) \<Rightarrow>
           (case (case getitem response ''process'' of Inl e \<Rightarrow> Inl e | Inr process \<Rightarrow>
                 (case validate_bpmn supported_elements process of
                    Inl e \<Rightarrow> Inl e | Inr u \<Rightarrow> Inr process)) of
              Inr process \<Rightarrow>
                (Inr process,
                 Log Debug [Lit (''Generated BPMN process:'' @ [CHR 0x0A]), Val process] # tr1)
            | Inl e \<Rightarrow>
               (case (if response = JNull then Inr [Lit ''N/A''] else py_get_process response) of
                  Inl e' \<Rightarrow> (Inl e', tr1)
                | Inr process_info \<Rightarrow>
                    create_loop llm_facade supported_elements
                      (Plain ([Lit ''Error: ''] @ str_of e @ [Lit ''. Try again.'']))
                      (attempts + 1) max_retries
                      (Log Warning
                         (validation_warning (attempts + 1) (str_of e)
                          @ [Lit [CHR 0x0A],
                             Lit (if response = JNull then ''LLM call failed'' else ''Invalid process''),
                             Lit '': ''] @ process_info
                          @ [Lit (CHR 0x0A # ''Traceback: '')] @ str_of e)
                       # tr1))))
     else (Inl (PyException
             [Lit ''Max number of retries reached. Could not create the BPMN process.'']), tr))"
  by pat_completeness auto
termination
  by (relation "measure (\<lambda>(llm_facade, supported_elements, prompt, attempts, max_retries, tr).
                           max_retries - attempts)") auto

declare create_loop.simps [simp del]

text \<open>\<^verbatim>\<open>BpmnModelingService.create_bpmn\<close>; \<open>message_history\<close> is the text that
  \<^verbatim>\<open>message_history_to_string\<close> (source not available) renders.\<close>

definition create_bpmn ::
  "facade \<Rightarrow> string list \<Rightarrow> string \<Rightarrow> nat \<Rightarrow> trace \<Rightarrow> (error + json) \<times> trace" where
  "create_bpmn llm_facade supported_elements message_history max_retries tr =
     create_loop llm_facade supported_elements
       (Prepared ''create_bpmn.txt'' [(''message_history'', [Lit message_history])])
       0 max_retries tr"

section \<open>Observations on a trace and example inputs\<close>

text \<open>A round of the intermediate loop starts with the prompt of the template
  \<^verbatim>\<open>edit_bpmn_intermediate_step.txt\<close>.\<close>

fun is_round_prompt :: "prompt \<Rightarrow> bool" where
  "is_round_prompt (Prepared name args) = (name = ''edit_bpmn_intermediate_step.txt'')"
| "is_round_prompt (Plain m) = False"

definition rounds_started :: "trace \<Rightarrow> nat" where
  "rounds_started tr = length (filter is_round_prompt (calls tr))"

definition stop_response :: json where
  "stop_response = JObj [(''stop'', JBool True)]"

definition delete_proposal :: json where
  "delete_proposal =
     JObj [(''function'', JStr ''delete_element''), (''arguments'', JObj [(''element_id'', JStr ''A'')])]"

definition stop_with_delete :: json where
  "stop_with_delete =
     JObj [(''stop'', JBool True), (''function'', JStr ''delete_element''),
           (''arguments'', JObj [(''element_id'', JStr ''A'')])]"

definition example_process :: json where
  "example_process =
     JList [JObj [(''id'', JStr ''A''), (''type'', JStr ''task''), (''label'', JStr ''Do A'')]]"

definition rejecting_library :: library where
  "rejecting_library =
     \<lparr>delete_element = (\<lambda>p kw. Inl (ProcessException [Lit ''Element not found''])),
      redirect_branch = (\<lambda>p kw. Inl (ProcessException [Lit ''Element not found''])),
      add_element = (\<lambda>p kw. Inl (ProcessException [Lit ''Element not found''])),
      move_element = (\<lambda>p kw. Inl (ProcessException [Lit ''Element not found''])),
      update_element = (\<lambda>p kw. Inl (ProcessException [Lit ''Element not found'']))\<rparr>"

definition emptying_library :: library where
  "emptying_library =
     \<lparr>delete_element = (\<lambda>p kw. Inr (JObj [(''process'', JList [])])),
      redirect_branch = (\<lambda>p kw. Inr (JObj [(''process'', JList [])])),
      add_element = (\<lambda>p kw. Inr (JObj [(''process'', JList [])])),
      move_element = (\<lambda>p kw. Inr (JObj [(''process'', JList [])])),
      update_element = (\<lambda>p kw. Inr (JObj [(''process'', JList [])]))\<rparr>"

definition service_with :: "facade \<Rightarrow> service" where
  "service_with f =
     \<lparr>self_llm_facade = f, self_process = example_process, self_change_request = ''remove A''\<rparr>"

text \<open>A facade whose first answer is a deletion and whose later answers are stop, and
  one whose first answer is the empty object and whose later answers are stop.\<close>

definition delete_then_stop :: facade where
  "delete_then_stop ps = (if length ps = 1 then Inr delete_proposal else Inr stop_response)"

definition invalid_then_stop :: facade where
  "invalid_then_stop ps = (if length ps = 1 then Inr (JObj []) else Inr stop_response)"

section \<open>The element grammar, as the specification words it\<close>

text \<open>Modelled from the spec: the values of the enum \<^verbatim>\<open>BPMNElementType\<close>
  (module bpmn_assistant.core.enums, source not available), which section 3 of the specification
  gives as the variants of an element. The theorems below hold for every list of
  supported types; this one is used at concrete inputs only.\<close>

definition element_types :: "string list" where
  "element_types = [''task'', ''userTask'', ''serviceTask'', ''exclusiveGateway'', ''parallelGateway'']"

text \<open>The elements of a process tree in document order: each item of the sequence,
  followed by the elements of every branch path of an \<open>exclusiveGateway\<close> and of every
  branch of a \<open>parallelGateway\<close>, to any depth.\<close>

function elements_of :: "json \<Rightarrow> json list" where
  "elements_of process =
    (case py_iter process of Inl e \<Rightarrow> [] | Inr elements \<Rightarrow>
       concat (map (\<lambda>element.
         element #
         (case getitem element ''type'' of Inl e \<Rightarrow> [] | Inr ty \<Rightarrow>
            (if ty = JStr ''exclusiveGateway'' then
               (case getitem element ''branches'' of Inl e \<Rightarrow> [] | Inr bs \<Rightarrow>
               (case py_iter bs of Inl e \<Rightarrow> [] | Inr branches \<Rightarrow>
                  concat (map (\<lambda>branch.
                    case getitem branch ''path'' of Inl e \<Rightarrow> [] | Inr path \<Rightarrow>
                      elements_of path) branches)))
             else [])
            @
            (if ty = JStr ''parallelGateway'' then
               (case getitem element ''branches'' of Inl e \<Rightarrow> [] | Inr bs \<Rightarrow>
               (case py_iter bs of Inl e \<Rightarrow> [] | Inr branches \<Rightarrow>
                  concat (map elements_of branches)))
             else []))) elements))"
  by pat_completeness auto
termination
proof (relation "measure size")
  show "wf (measure size)" by simp
next
  fix process elements element ty bs branches branch path
  assume "py_iter process = Inr elements" "element \<in> set elements"
    "getitem element ''branches'' = Inr bs" "py_iter bs = Inr branches" "branch \<in> set branches"
    "getitem branch ''path'' = Inr path"
  then have "size path < size branch" "size branch \<le> size bs" "size bs < size element"
    "size element \<le> size process"
    by (auto dest: size_getitem size_py_iter)
  then show "(path, process) \<in> measure size" by simp
next
  fix process elements element ty bs branches branch
  assume "py_iter process = Inr elements" "element \<in> set elements"
    "getitem element ''branches'' = Inr bs" "py_iter bs = Inr branches" "branch \<in> set branches"
  then have "size branch \<le> size bs" "size bs < size element" "size element \<le> size process"
    by (auto dest: size_getitem size_py_iter)
  then show "(branch, process) \<in> measure size" by simp
qed

declare elements_of.simps [simp del]




text \<open>Example elements, and a tree with a given element three branches deep.\<close>

definition labelled_task :: json where
  "labelled_task = JObj [(''id'', JStr ''T1''), (''type'', JStr ''task''), (''label'', JStr ''Check order'')]"

definition unlabelled_task :: json where
  "unlabelled_task = JObj [(''id'', JStr ''T2''), (''type'', JStr ''task'')]"

definition empty_label_task :: json where
  "empty_label_task = JObj [(''id'', JStr ''T3''), (''type'', JStr ''task''), (''label'', JStr [])]"

definition unknown_type_element :: json where
  "unknown_type_element = JObj [(''id'', JStr ''T4''), (''type'', JStr ''notAnElementType'')]"

definition branch_without_path :: json where
  "branch_without_path = JObj [(''condition'', JStr ''yes'')]"

definition gateway_with_bad_branch :: json where
  "gateway_with_bad_branch =
     JObj [(''id'', JStr ''G4''), (''type'', JStr ''exclusiveGateway''), (''label'', JStr ''Paid?''),
           (''branches'', JList [branch_without_path])]"

definition gateway_with_number_branch :: json where
  "gateway_with_number_branch =
     JObj [(''id'', JStr ''G5''), (''type'', JStr ''parallelGateway''), (''branches'', JList [JNum 5])]"

definition nested_three_deep :: "json \<Rightarrow> json" where
  "nested_three_deep element =
     JList [labelled_task,
       JObj [(''id'', JStr ''G1''), (''type'', JStr ''exclusiveGateway''), (''label'', JStr ''Paid?''),
             (''branches'', JList
               [JObj [(''condition'', JStr ''yes''),
                      (''path'', JList
                        [JObj [(''id'', JStr ''G2''), (''type'', JStr ''parallelGateway''),
                               (''branches'', JList
                                 [JList
                                   [JObj [(''id'', JStr ''G3''), (''type'', JStr ''exclusiveGateway''),
                                          (''label'', JStr ''Stock?''),
                                          (''branches'', JList
                                             [JObj [(''condition'', JStr ''no''),
                                                    (''path'', JList [element])]])]]])]])]])]]"

text \<open>An answer from which \<^verbatim>\<open>create_bpmn\<close> reads no valid process, and whose handling
  in the \<^verbatim>\<open>except\<close> block does not itself raise: \<open>None\<close>, or an object whose
  \<open>process\<close> is missing or invalid.\<close>

fun unusable :: "string list \<Rightarrow> json \<Rightarrow> bool" where
  "unusable supported JNull = True"
| "unusable supported (JObj kvs) =
     (case map_of kvs ''process'' of
        None \<Rightarrow> True
      | Some process \<Rightarrow> (case validate_bpmn supported process of Inl e \<Rightarrow> True | Inr u \<Rightarrow> False))"
| "unusable supported v = False"

text \<open>The error \<^verbatim>\<open>OpenAIProvider.call\<close> raises for an empty response.\<close>

definition empty_response_error :: error where
  "empty_response_error = ValueError [Lit ''Empty response from OpenAI'']"

section \<open>The operation grammar, as the specification words it\<close>

text \<open>The verb table: each verb with its exact set of argument keys.\<close>

definition matches_required_keys :: "string \<Rightarrow> (string \<times> json) list \<Rightarrow> bool" where
  "matches_required_keys verb args =
    (if verb = ''delete_element'' then set (keys args) = {''element_id''}
     else if verb = ''redirect_branch'' then set (keys args) = {''branch_condition'', ''next_id''}
     else if verb = ''add_element'' then
       set (keys args) = {''element'', ''before_id''} \<or> set (keys args) = {''element'', ''after_id''}
     else if verb = ''move_element'' then
       set (keys args) = {''element_id'', ''before_id''} \<or> set (keys args) = {''element_id'', ''after_id''}
     else if verb = ''update_element'' then set (keys args) = {''new_element''}
     else False)"

section \<open>Properties of the edit proposal validator\<close>

lemma length_keys: "length (keys kvs) = card (set (keys kvs))"
  by (simp add: keys_def length_remdups_card_conv)

lemma card_le1_iff: "finite S \<Longrightarrow> (x \<in> S \<and> \<not> 1 < card S) = (S = {x})"
proof
  assume f: "finite S" and h: "x \<in> S \<and> \<not> 1 < card S"
  then have "{x} \<subseteq> S" "card S \<le> card {x}" by auto
  with f show "S = {x}" using card_seteq by blast 
qed auto

lemma card_le2_iff: "finite S \<Longrightarrow> x \<noteq> y \<Longrightarrow> (x \<in> S \<and> y \<in> S \<and> \<not> 2 < card S) = (S = {x, y})"
proof
  assume f: "finite S" and n: "x \<noteq> y" and h: "x \<in> S \<and> y \<in> S \<and> \<not> 2 < card S"
  then have "{x, y} \<subseteq> S" "card S \<le> card {x, y}" by auto
  with f show "S = {x, y}" using card_seteq by blast
next
  assume "x \<noteq> y" "S = {x, y}" then show "x \<in> S \<and> y \<in> S \<and> \<not> 2 < card S" by auto
qed

lemma one_key_check:
  "py_if (py_not_in k (JObj args)) (Inl (ValueError a))
     (py_if (len_gt (JObj args) 1) (Inl (ValueError b)) (Inr True))
   = (if set (keys args) = {k} then Inr True
      else Inl (ValueError (if k \<in> set (keys args) then b else a)))"
  using card_le1_iff[of "set (keys args)" k]
  by (auto simp: py_if_def py_not_in_def len_gt_def length_keys)

lemmas one_key_check' = one_key_check[unfolded One_nat_def]

lemma two_keys_check:
  "k \<noteq> l \<Longrightarrow>
   py_if (py_or (py_not_in k (JObj args)) (py_not_in l (JObj args))) (Inl (ValueError a))
     (py_if (len_gt (JObj args) 2) (Inl (ValueError b)) (Inr True))
   = (if set (keys args) = {k, l} then Inr True
      else Inl (ValueError (if k \<in> set (keys args) \<and> l \<in> set (keys args) then b else a)))"
  using card_le2_iff[of "set (keys args)" k l]
  by (auto simp: py_if_def py_or_def py_not_in_def len_gt_def length_keys)

lemma key_and_one_of_check:
  "k \<noteq> b \<Longrightarrow> k \<noteq> f \<Longrightarrow> b \<noteq> f \<Longrightarrow>
   py_if (py_not_in k (JObj args)) (Inl (ValueError m1))
     (py_if (py_and (py_in b (JObj args)) (py_in f (JObj args))) (Inl (ValueError m2))
     (py_if (py_and (py_not_in b (JObj args)) (py_not_in f (JObj args))) (Inl (ValueError m3))
     (py_if (len_gt (JObj args) 2) (Inl (ValueError m4)) (Inr True))))
   = (if set (keys args) = {k, b} \<or> set (keys args) = {k, f} then Inr True
      else Inl (ValueError
        (if k \<notin> set (keys args) then m1
         else if b \<in> set (keys args) \<and> f \<in> set (keys args) then m2
         else if b \<notin> set (keys args) \<and> f \<notin> set (keys args) then m3 else m4)))"
  using card_le2_iff[of "set (keys args)" k b] card_le2_iff[of "set (keys args)" k f]
  by (auto simp: py_if_def py_and_def py_not_in_def len_gt_def length_keys)

lemma map_of_in_keys: "map_of kvs k = Some v \<Longrightarrow> k \<in> set (keys kvs)"
  by (auto simp: keys_def dest: map_of_SomeD intro: rev_image_eqI)

text \<open>
  Claim C6. For a proposal object whose \<open>function\<close> is a verb and whose \<open>arguments\<close>
  is a mapping, the validator accepts exactly when the keys of the arguments are the
  verb's required set of the table, and every rejection is a \<open>ValueError\<close>: an extra
  key, an unknown verb, and both or neither of \<open>before_id\<close> / \<open>after_id\<close> are all
  rejected. (With \<open>is_first_edit\<close> false the object must not carry a \<open>stop\<close> key,
  which is accepted before the verb is looked at.)
\<close>

theorem validate_llm_response_exact_keys:
  assumes "map_of response ''function'' = Some (JStr verb)"
    and "map_of response ''arguments'' = Some (JObj args)"
    and "is_first_edit \<or> ''stop'' \<notin> set (keys response)"
  shows "(validate_llm_response (JObj response) is_first_edit = Inr True
            \<longleftrightarrow> matches_required_keys verb args)
       \<and> (\<not> matches_required_keys verb args \<longrightarrow>
            (\<exists>m. validate_llm_response (JObj response) is_first_edit = Inl (ValueError m)))"
proof -
  have f: "''function'' \<in> set (keys response)" and a: "''arguments'' \<in> set (keys response)"
    using assms(1,2) by (auto dest: map_of_in_keys)
  have guard1: "py_and (Inr (\<not> is_first_edit)) (py_in ''stop'' (JObj response)) = Inr False"
    using assms(3) by (auto simp: py_and_def)
  have guard2: "py_and (py_or (py_not_in ''function'' (JObj response))
                              (py_not_in ''arguments'' (JObj response)))
                       (py_not_in ''stop'' (JObj response)) = Inr False"
    using f a by (simp add: py_and_def py_or_def py_not_in_def)
  note defs = validate_llm_response_def guard1 guard2
  note simps = assms(1,2) py_if_def[of "Inr False"] matches_required_keys_def
  consider (d) "verb = ''delete_element''" | (r) "verb = ''redirect_branch''"
    | (a) "verb = ''add_element''" | (m) "verb = ''move_element''" | (u) "verb = ''update_element''"
    | (other) "verb \<noteq> ''delete_element''" "verb \<noteq> ''redirect_branch''" "verb \<noteq> ''add_element''"
       "verb \<noteq> ''move_element''" "verb \<noteq> ''update_element''"
    by blast
  then show ?thesis
  proof cases
    case d
    then show ?thesis
      unfolding defs by (simp add: simps one_key_check' del: py_in.simps)
  next
    case r
    then show ?thesis 
      unfolding defs by (simp add: simps two_keys_check del: py_in.simps)
  next
    case a
    then show ?thesis
      unfolding defs by (simp add: simps key_and_one_of_check del: py_in.simps)
  next
    case m
    then show ?thesis
      unfolding defs by (simp add: simps key_and_one_of_check del: py_in.simps)
  next
    case u
    then show ?thesis
      unfolding defs by (simp add: simps one_key_check' del: py_in.simps)
  next
    case other
    then show ?thesis
      unfolding defs by (simp add: simps del: py_in.simps)
  qed
qed

text \<open>
  The specification's examples: \<open>delete_element\<close> with \<open>{element_id}\<close> is valid, an
  extra key \<open>foo\<close> invalidates it, \<open>add_element\<close> with both \<open>before_id\<close> and
  \<open>after_id\<close> is invalid.
\<close>

theorem validate_llm_response_exact_keys_witness:
  "validate_llm_response
     (JObj [(''function'', JStr ''delete_element''),
            (''arguments'', JObj [(''element_id'', JStr ''A'')])]) True = Inr True
   \<and> (\<exists>m. validate_llm_response
     (JObj [(''function'', JStr ''delete_element''),
            (''arguments'', JObj [(''element_id'', JStr ''A''), (''foo'', JNull)])]) True
        = Inl (ValueError m))
   \<and> (\<exists>m. validate_llm_response
     (JObj [(''function'', JStr ''add_element''),
            (''arguments'', JObj [(''element'', JNull), (''before_id'', JStr ''A''),
                                  (''after_id'', JStr ''B'')])]) False
        = Inl (ValueError m))"
  using validate_llm_response_exact_keys
      [of "[(''function'', JStr ''delete_element''),
            (''arguments'', JObj [(''element_id'', JStr ''A'')])]"
          "''delete_element''" "[(''element_id'', JStr ''A'')]" True]
    validate_llm_response_exact_keys
      [of "[(''function'', JStr ''delete_element''),
            (''arguments'', JObj [(''element_id'', JStr ''A''), (''foo'', JNull)])]"
          "''delete_element''" "[(''element_id'', JStr ''A''), (''foo'', JNull)]" True]
    validate_llm_response_exact_keys
      [of "[(''function'', JStr ''add_element''),
            (''arguments'', JObj [(''element'', JNull), (''before_id'', JStr ''A''),
                                  (''after_id'', JStr ''B'')])]"
          "''add_element''" "[(''element'', JNull), (''before_id'', JStr ''A''),
                                  (''after_id'', JStr ''B'')]" False]
  by (simp add: matches_required_keys_def keys_def set_eq_subset)

text \<open>
  Claim C5. The object \<open>{"stop": true}\<close> is accepted when \<open>is_first_edit\<close> is false.
  As the first proposal it is rejected, but not with a \<open>ValueError\<close>: the guard for a
  missing \<open>function\<close> is switched off by the \<open>stop\<close> key, and the lookup
  \<^verbatim>\<open>response["function"]\<close> raises \<open>KeyError\<close>, which the \<^verbatim>\<open>except ValueError\<close> of
  \<^verbatim>\<open>_get_initial_edit_proposal\<close> does not catch: \<open>edit_bpmn\<close> ends with that error
  after one facade call, without a re-prompt.
\<close>

theorem stop_as_first_proposal:
  "validate_llm_response (JObj [(''stop'', JBool True)]) True = Inl (KeyError [Lit (quoted ''function'')])
   \<and> validate_llm_response (JObj [(''stop'', JBool True)]) False = Inr True
   \<and> edit_bpmn \<lparr>self_llm_facade = (\<lambda>ps. Inr (JObj [(''stop'', JBool True)])),
                  self_process = JList [], self_change_request = ''rename A''\<rparr> lib []
       = (Inl (KeyError [Lit (quoted ''function'')]),
          [Log Info [Lit ''Initial edit proposal: '', Val (JObj [(''stop'', JBool True)])],
           Call (Prepared ''edit_bpmn.txt''
                  [(''process'', [Val (JList [])]), (''change_request'', [Lit ''rename A''])])])"
proof -
  have v: "validate_llm_response (JObj [(''stop'', JBool True)]) True = Inl (KeyError [Lit (quoted ''function'')])"
    by (simp add: validate_llm_response_def py_if_def py_and_def py_or_def py_not_in_def keys_def)
  have w: "validate_llm_response (JObj [(''stop'', JBool True)]) False = Inr True"
    by (simp add: validate_llm_response_def py_if_def py_and_def keys_def)
  show ?thesis
    by (simp add: v w edit_bpmn_def apply_initial_edit_def get_initial_edit_proposal_def call_def
          initial_loop.simps)
qed

section \<open>Properties of the edit orchestrator\<close>

lemmas eval_defs =
  service_with_def rejecting_library_def emptying_library_def stop_response_def delete_proposal_def
  stop_with_delete_def example_process_def
  update_process_def edit_functions_def call_def validate_llm_response_def
  py_if_def py_and_def py_or_def py_not_in_def len_gt_def keys_def
  attempt_process_update_with_retries_def get_initial_edit_proposal_def
  get_intermediate_edit_proposal_def apply_initial_edit_def intermediate_prompt_def
  update_loop.simps initial_loop.simps intermediate_loop.simps

lemma calls_call [simp]: "calls (snd (call f p tr)) = p # calls tr"
  by (simp add: call_def)

lemma update_loop_exit:
  "\<not> attempts < max_retries \<Longrightarrow>
   update_loop self lib process ep attempts max_retries tr =
     (Inl (PyException [Lit ''Max number of retries reached. Process not fully edited.'']), tr)"
  by (subst update_loop.simps) simp

lemma update_loop_calls:
  "length (calls (snd (update_loop self lib process ep attempts max_retries tr)))
     \<le> length (calls tr) + (max_retries - attempts)"
proof (induction n \<equiv> "max_retries - attempts" arbitrary: attempts ep tr)
  case 0
  then show ?case by (simp add: update_loop_exit)
next
  case (Suc n)
  have IH: "\<And>ep tr. length (calls (snd (update_loop self lib process ep (Suc attempts) max_retries tr)))
     \<le> length (calls tr) + (max_retries - Suc attempts)"
    by (rule Suc.hyps(1)) (use Suc.hyps(2) in arith)
  show ?case
    apply (subst update_loop.simps)
    using Suc.hyps(2)
    apply (auto simp: call_def split: sum.splits error.splits prod.splits intro!: order_trans[OF IH])
    done
qed

lemma initial_loop_exit:
  "\<not> attempts < max_retries \<Longrightarrow>
   initial_loop self response attempts max_retries tr =
     (Inl (PyException [Lit ''Max number of retries reached.'']), tr)"
  by (subst initial_loop.simps) simp

lemma initial_loop_calls:
  "length (calls (snd (initial_loop self response attempts max_retries tr)))
     \<le> length (calls tr) + (max_retries - attempts)"
proof (induction n \<equiv> "max_retries - attempts" arbitrary: attempts response tr)
  case 0
  then show ?case by (simp add: initial_loop_exit)
next
  case (Suc n)
  have IH: "\<And>r tr. length (calls (snd (initial_loop self r (Suc attempts) max_retries tr)))
     \<le> length (calls tr) + (max_retries - Suc attempts)"
    by (rule Suc.hyps(1)) (use Suc.hyps(2) in arith)
  show ?case
    apply (subst initial_loop.simps)
    using Suc.hyps(2)
    apply (auto simp: call_def split: sum.splits error.splits prod.splits intro!: order_trans[OF IH])
    done
qed

lemma initial_loop_calls_ok:
  "fst (initial_loop self response attempts max_retries tr) = Inr r \<Longrightarrow>
   Suc (length (calls (snd (initial_loop self response attempts max_retries tr))))
     \<le> length (calls tr) + (max_retries - attempts)"
proof (induction n \<equiv> "max_retries - attempts" arbitrary: attempts response tr)
  case 0
  then show ?case by (simp add: initial_loop_exit)
next
  case (Suc n)
  have IH: "\<And>r' tr. fst (initial_loop self r' (Suc attempts) max_retries tr) = Inr r \<Longrightarrow>
     Suc (length (calls (snd (initial_loop self r' (Suc attempts) max_retries tr))))
     \<le> length (calls tr) + (max_retries - Suc attempts)"
    by (rule Suc.hyps(1)) (use Suc.hyps(2) in arith)
  show ?case
    using Suc.prems Suc.hyps(2)
    apply (subst initial_loop.simps)
    apply (subst (asm) initial_loop.simps)
    apply (auto simp: call_def split: sum.splits error.splits prod.splits dest!: IH)
    done
qed

lemma intermediate_loop_exit:
  "\<not> attempts < max_retries \<Longrightarrow>
   intermediate_loop self p m attempts max_retries tr =
     (Inl (PyException [Lit ''Max number of retries reached.'']), tr)"
  by (subst intermediate_loop.simps) simp

lemma intermediate_loop_calls:
  "length (calls (snd (intermediate_loop self p m attempts max_retries tr)))
     \<le> length (calls tr) + (max_retries - attempts)"
proof (induction n \<equiv> "max_retries - attempts" arbitrary: attempts m tr)
  case 0
  then show ?case by (simp add: intermediate_loop_exit)
next
  case (Suc n)
  have IH: "\<And>m tr. length (calls (snd (intermediate_loop self p m (Suc attempts) max_retries tr)))
     \<le> length (calls tr) + (max_retries - Suc attempts)"
    by (rule Suc.hyps(1)) (use Suc.hyps(2) in arith)
  show ?case
    apply (subst intermediate_loop.simps)
    using Suc.hyps(2)
    apply (auto simp: call_def split: sum.splits error.splits prod.splits intro!: order_trans[OF IH])
    done
qed

lemma get_initial_edit_proposal_calls:
  "length (calls (snd (get_initial_edit_proposal self max_retries tr)))
     \<le> length (calls tr) + (if (\<exists>r. fst (get_initial_edit_proposal self max_retries tr) = Inr r)
                               then max_retries else Suc max_retries)"
proof (cases "self_llm_facade self (Prepared ''edit_bpmn.txt''
               [(''process'', [Val (self_process self)]),
                (''change_request'', [Lit (self_change_request self)])] # calls tr)")
  case (Inl e)
  then show ?thesis by (simp add: get_initial_edit_proposal_def call_def)
next
  case (Inr response)
  let ?tr1 = "Log Info [Lit ''Initial edit proposal: '', Val response] #
        Call (Prepared ''edit_bpmn.txt''
               [(''process'', [Val (self_process self)]),
                (''change_request'', [Lit (self_change_request self)])]) # tr"
  have eq: "get_initial_edit_proposal self max_retries tr = initial_loop self response 0 max_retries ?tr1"
    using Inr by (simp add: get_initial_edit_proposal_def call_def)
  show ?thesis
    using initial_loop_calls[of self response 0 max_retries ?tr1]
      initial_loop_calls_ok[of self response 0 max_retries ?tr1]
    by (auto simp: eq)
qed

lemma attempt_process_update_with_retries_calls:
  "length (calls (snd (attempt_process_update_with_retries self lib process ep max_retries tr)))
     \<le> length (calls tr) + max_retries"
  using update_loop_calls[of self lib process ep 0 max_retries tr]
  by (simp add: attempt_process_update_with_retries_def)

lemma get_intermediate_edit_proposal_calls:
  "length (calls (snd (get_intermediate_edit_proposal self p max_retries tr)))
     \<le> length (calls tr) + max_retries"
  using intermediate_loop_calls[of self p "[]" 0 max_retries tr]
  by (simp add: get_intermediate_edit_proposal_def)

lemma apply_intermediate_edits_calls:
  "length (calls (snd (apply_intermediate_edits self lib p n tr))) \<le> length (calls tr) + 6 * n"
proof (induction n arbitrary: p tr)
  case 0
  then show ?case by simp
next
  case (Suc n)
  obtain r1 tr1 where g: "get_intermediate_edit_proposal self p 3 tr = (r1, tr1)"
    by (cases "get_intermediate_edit_proposal self p 3 tr")
  have b1: "length (calls tr1) \<le> length (calls tr) + 3"
    using get_intermediate_edit_proposal_calls[of self p 3 tr] g by simp
  show ?case
  proof (cases r1)
    case (Inl e)
    then show ?thesis using g b1 by simp
  next
    case (Inr response)
    obtain r2 tr2 where u: "attempt_process_update_with_retries self lib p response 3 tr1 = (r2, tr2)"
      by (cases "attempt_process_update_with_retries self lib p response 3 tr1")
    have b2: "length (calls tr2) \<le> length (calls tr1) + 3"
      using attempt_process_update_with_retries_calls[of self lib p response 3 tr1] u by simp
    show ?thesis
      using g Inr u b1 b2 Suc.IH
      by (auto split: sum.splits intro: order_trans[OF Suc.IH])
  qed
qed

lemma apply_initial_edit_calls:
  "length (calls (snd (apply_initial_edit self lib tr))) \<le> length (calls tr) + 6"
proof -
  obtain r1 tr1 where g: "get_initial_edit_proposal self 3 tr = (r1, tr1)"
    by (cases "get_initial_edit_proposal self 3 tr")
  show ?thesis
  proof (cases r1)
    case (Inl e)
    then show ?thesis
      using g get_initial_edit_proposal_calls[of self 3 tr] by (simp add: apply_initial_edit_def)
  next
    case (Inr response)
    have b1: "length (calls tr1) \<le> length (calls tr) + 3"
      using g Inr get_initial_edit_proposal_calls[of self 3 tr] by simp
    show ?thesis
      using g Inr b1 attempt_process_update_with_retries_calls[of self lib "self_process self" response 3 tr1]
      by (simp add: apply_initial_edit_def)
  qed
qed

text \<open>
  Claim C1. Whatever the facade and the edit functions do, \<open>edit_bpmn\<close> returns a
  process or an error (it is a total function: every loop runs on an attempt or
  iteration counter), and it makes at most 48 facade calls: at most 3 before the
  initial proposal is accepted, 3 in the apply retries, and 3 + 3 in each of the 7
  rounds.
\<close>

theorem edit_bpmn_bounded:
  "length (calls (snd (edit_bpmn self lib tr))) \<le> length (calls tr) + 48
   \<and> ((\<exists>process. fst (edit_bpmn self lib tr) = Inr process)
        \<or> (\<exists>e. fst (edit_bpmn self lib tr) = Inl e))"
proof -
  obtain r1 tr1 where a: "apply_initial_edit self lib tr = (r1, tr1)"
    by (cases "apply_initial_edit self lib tr")
  have b1: "length (calls tr1) \<le> length (calls tr) + 6"
    using a apply_initial_edit_calls[of self lib tr] by simp
  have "length (calls (snd (edit_bpmn self lib tr))) \<le> length (calls tr) + 48"
  proof (cases r1)
    case (Inl e)
    then show ?thesis using a b1 by (simp add: edit_bpmn_def)
  next
    case (Inr p)
    then show ?thesis
      using a b1 apply_intermediate_edits_calls[of self lib p 7 tr1] by (simp add: edit_bpmn_def)
  qed
  moreover have "(\<exists>process. fst (edit_bpmn self lib tr) = Inr process)
        \<or> (\<exists>e. fst (edit_bpmn self lib tr) = Inl e)"
    by (cases "fst (edit_bpmn self lib tr)") auto
  ultimately show ?thesis by blast
qed

text \<open>The bound at a facade whose proposals are always refused by the edit functions.\<close>

theorem edit_bpmn_bounded_witness:
  "length (calls (snd (edit_bpmn (service_with (\<lambda>ps. Inr delete_proposal)) rejecting_library []))) \<le> 48
   \<and> ((\<exists>process. fst (edit_bpmn (service_with (\<lambda>ps. Inr delete_proposal)) rejecting_library []) = Inr process)
        \<or> (\<exists>e. fst (edit_bpmn (service_with (\<lambda>ps. Inr delete_proposal)) rejecting_library []) = Inl e))"
  using edit_bpmn_bounded[of "service_with (\<lambda>ps. Inr delete_proposal)" rejecting_library "[]"]
  by simp



lemma update_loop_retry:
  assumes "attempts < max_retries"
    and "update_process lib process ep = Inl (ProcessException m)"
    and "self_llm_facade self
           (Plain ([Lit ''Error: ''] @ m @
                   [Lit ''. Try again. Change request: '', Lit (self_change_request self)])
            # calls tr) = Inr np"
    and "py_in ''stop'' np = Inr False"
  shows "update_loop self lib process ep attempts max_retries tr =
         update_loop self lib process np (Suc attempts) max_retries
           (Log Info [Lit ''New edit proposal: '', Val np]
            # Call (Plain ([Lit ''Error: ''] @ m @
                   [Lit ''. Try again. Change request: '', Lit (self_change_request self)]))
            # Log Warning (validation_warning (Suc attempts) m) # tr)"
  using assms by (subst update_loop.simps) (simp add: call_def)

lemma initial_loop_retry:
  assumes "attempts < max_retries"
    and "validate_llm_response response True = Inl (ValueError m)"
    and "self_llm_facade self
           (Plain ([Lit ''Editing error: ''] @ m @ [Lit ''. Please provide a new edit proposal.''])
            # calls tr) = Inr nr"
  shows "initial_loop self response attempts max_retries tr =
         initial_loop self nr (Suc attempts) max_retries
           (Log Info [Lit ''New initial edit proposal: '', Val nr]
            # Call (Plain ([Lit ''Editing error: ''] @ m @
                           [Lit ''. Please provide a new edit proposal.'']))
            # Log Warning (validation_warning (Suc attempts) m) # tr)"
  using assms by (subst initial_loop.simps) (simp add: call_def)

lemma initial_loop_accept:
  assumes "attempts < max_retries" and "validate_llm_response response True = Inr ok"
  shows "initial_loop self response attempts max_retries tr = (Inr response, tr)"
  using assms by (subst initial_loop.simps) simp

lemma always_structurally_invalid:
  assumes H: "\<forall>ps. \<exists>r m. self_llm_facade self ps = Inr r
                \<and> validate_llm_response r True = Inr True
                \<and> py_in ''stop'' r = Inr False
                \<and> update_process lib (self_process self) r = Inl (ProcessException m)"
  shows "\<exists>tr' m1 m2 m3.
           edit_bpmn self lib tr =
             (Inl (PyException [Lit ''Max number of retries reached. Process not fully edited.'']), tr')
         \<and> warnings tr' = [validation_warning 3 m3, validation_warning 2 m2, validation_warning 1 m1]
                            @ warnings tr
         \<and> length (calls tr') = length (calls tr) + 4"
proof -
  let ?Q = "Prepared ''edit_bpmn.txt''
               [(''process'', [Val (self_process self)]),
                (''change_request'', [Lit (self_change_request self)])]"
  let ?P = "\<lambda>m. Plain ([Lit ''Error: ''] @ m @
                   [Lit ''. Try again. Change request: '', Lit (self_change_request self)])"
  let ?I = "\<lambda>r. Log Info [Lit ''New edit proposal: '', Val r]"
  obtain r0 m1 where r0: "self_llm_facade self (?Q # calls tr) = Inr r0"
      "validate_llm_response r0 True = Inr True"
      "update_process lib (self_process self) r0 = Inl (ProcessException m1)"
    using H by blast
  let ?tr1 = "Log Info [Lit ''Initial edit proposal: '', Val r0] # Call ?Q # tr"
  have g: "get_initial_edit_proposal self 3 tr = (Inr r0, ?tr1)"
    using r0 by (simp add: get_initial_edit_proposal_def call_def initial_loop_accept)
  obtain r1 m2 where r1: "self_llm_facade self (?P m1 # calls ?tr1) = Inr r1"
      "py_in ''stop'' r1 = Inr False"
      "update_process lib (self_process self) r1 = Inl (ProcessException m2)"
    using H by blast
  let ?tr2 = "?I r1 # Call (?P m1) # Log Warning (validation_warning (Suc 0) m1) # ?tr1"
  obtain r2 m3 where r2: "self_llm_facade self (?P m2 # calls ?tr2) = Inr r2"
      "py_in ''stop'' r2 = Inr False"
      "update_process lib (self_process self) r2 = Inl (ProcessException m3)"
    using H by blast
  let ?tr3 = "?I r2 # Call (?P m2) # Log Warning (validation_warning (Suc (Suc 0)) m2) # ?tr2"
  obtain r3 m4 where r3: "self_llm_facade self (?P m3 # calls ?tr3) = Inr r3"
      "py_in ''stop'' r3 = Inr False"
    using H by blast
  let ?tr4 = "?I r3 # Call (?P m3) # Log Warning (validation_warning (Suc (Suc (Suc 0))) m3) # ?tr3"
  have s1: "update_loop self lib (self_process self) r0 0 3 ?tr1
          = update_loop self lib (self_process self) r1 (Suc 0) 3 ?tr2"
    by (rule update_loop_retry) (use r0 r1 in simp_all)
  have s2: "update_loop self lib (self_process self) r1 (Suc 0) 3 ?tr2
          = update_loop self lib (self_process self) r2 (Suc (Suc 0)) 3 ?tr3"
    by (rule update_loop_retry) (use r1 r2 in simp_all)
  have s3: "update_loop self lib (self_process self) r2 (Suc (Suc 0)) 3 ?tr3
          = update_loop self lib (self_process self) r3 (Suc (Suc (Suc 0))) 3 ?tr4"
    by (rule update_loop_retry) (use r2 r3 in simp_all)
  have l: "update_loop self lib (self_process self) r0 0 3 ?tr1 =
      (Inl (PyException [Lit ''Max number of retries reached. Process not fully edited.'']), ?tr4)"
    by (simp only: s1 s2 s3) (rule update_loop_exit, simp)
  have e: "edit_bpmn self lib tr =
      (Inl (PyException [Lit ''Max number of retries reached. Process not fully edited.'']), ?tr4)"
    by (simp add: edit_bpmn_def apply_initial_edit_def g attempt_process_update_with_retries_def l)
  show ?thesis
    apply (rule exI[of _ ?tr4], rule exI[of _ m1], rule exI[of _ m2], rule exI[of _ m3])
    apply (simp only: e)
    apply (simp add: numeral_3_eq_3 numeral_2_eq_2)
    done
qed

lemma always_grammatically_invalid:
  assumes H: "\<forall>ps. \<exists>r m. self_llm_facade self ps = Inr r
                \<and> validate_llm_response r True = Inl (ValueError m)"
  shows "\<exists>tr' m1 m2 m3.
           edit_bpmn self lib tr = (Inl (PyException [Lit ''Max number of retries reached.'']), tr')
         \<and> warnings tr' = [validation_warning 3 m3, validation_warning 2 m2, validation_warning 1 m1]
                            @ warnings tr
         \<and> length (calls tr') = length (calls tr) + 4"
proof -
  let ?Q = "Prepared ''edit_bpmn.txt''
               [(''process'', [Val (self_process self)]),
                (''change_request'', [Lit (self_change_request self)])]"
  let ?P = "\<lambda>m. Plain ([Lit ''Editing error: ''] @ m @ [Lit ''. Please provide a new edit proposal.''])"
  let ?I = "\<lambda>r. Log Info [Lit ''New initial edit proposal: '', Val r]"
  obtain r0 m1 where r0: "self_llm_facade self (?Q # calls tr) = Inr r0"
      "validate_llm_response r0 True = Inl (ValueError m1)"
    using H by blast
  let ?tr1 = "Log Info [Lit ''Initial edit proposal: '', Val r0] # Call ?Q # tr"
  obtain r1 m2 where r1: "self_llm_facade self (?P m1 # calls ?tr1) = Inr r1"
      "validate_llm_response r1 True = Inl (ValueError m2)"
    using H by blast
  let ?tr2 = "?I r1 # Call (?P m1) # Log Warning (validation_warning (Suc 0) m1) # ?tr1"
  obtain r2 m3 where r2: "self_llm_facade self (?P m2 # calls ?tr2) = Inr r2"
      "validate_llm_response r2 True = Inl (ValueError m3)"
    using H by blast
  let ?tr3 = "?I r2 # Call (?P m2) # Log Warning (validation_warning (Suc (Suc 0)) m2) # ?tr2"
  obtain r3 m4 where r3: "self_llm_facade self (?P m3 # calls ?tr3) = Inr r3"
    using H by blast
  let ?tr4 = "?I r3 # Call (?P m3) # Log Warning (validation_warning (Suc (Suc (Suc 0))) m3) # ?tr3"
  have s1: "initial_loop self r0 0 3 ?tr1 = initial_loop self r1 (Suc 0) 3 ?tr2"
    by (rule initial_loop_retry) (use r0 r1 in simp_all)
  have s2: "initial_loop self r1 (Suc 0) 3 ?tr2 = initial_loop self r2 (Suc (Suc 0)) 3 ?tr3"
    by (rule initial_loop_retry) (use r1 r2 in simp_all)
  have s3: "initial_loop self r2 (Suc (Suc 0)) 3 ?tr3 = initial_loop self r3 (Suc (Suc (Suc 0))) 3 ?tr4"
    by (rule initial_loop_retry) (use r2 r3 in simp_all)
  have l: "initial_loop self r0 0 3 ?tr1 =
      (Inl (PyException [Lit ''Max number of retries reached.'']), ?tr4)"
    by (simp only: s1 s2 s3) (rule initial_loop_exit, simp)
  have e: "edit_bpmn self lib tr = (Inl (PyException [Lit ''Max number of retries reached.'']), ?tr4)"
    using r0(1) by (simp add: edit_bpmn_def apply_initial_edit_def get_initial_edit_proposal_def call_def l)
  show ?thesis
    apply (rule exI[of _ ?tr4], rule exI[of _ m1], rule exI[of _ m2], rule exI[of _ m3])
    apply (simp only: e)
    apply (simp add: numeral_3_eq_3 numeral_2_eq_2)
    done
qed

text \<open>
  The retry caps, for the errors that the loops catch. If every proposal of the facade
  passes the grammar but is refused by the edit function with a \<open>ProcessException\<close>,
  \<open>edit_bpmn\<close> fails with the error of the apply loop after exactly three logged apply
  attempts (1, 2, 3) and four facade calls. If every proposal is refused by the
  validator with its \<open>ValueError\<close>, \<open>edit_bpmn\<close> fails with the error of the proposal
  loop after exactly three logged validation attempts.
\<close>

theorem retry_caps_exhausted:
  "((\<forall>ps. \<exists>r m. self_llm_facade self ps = Inr r
                \<and> validate_llm_response r True = Inr True
                \<and> py_in ''stop'' r = Inr False
                \<and> update_process lib (self_process self) r = Inl (ProcessException m))
    \<longrightarrow> (\<exists>tr' m1 m2 m3.
           edit_bpmn self lib tr =
             (Inl (PyException [Lit ''Max number of retries reached. Process not fully edited.'']), tr')
         \<and> warnings tr' = [validation_warning 3 m3, validation_warning 2 m2, validation_warning 1 m1]
                            @ warnings tr
         \<and> length (calls tr') = length (calls tr) + 4))
   \<and> ((\<forall>ps. \<exists>r m. self_llm_facade self ps = Inr r
                \<and> validate_llm_response r True = Inl (ValueError m))
    \<longrightarrow> (\<exists>tr' m1 m2 m3.
           edit_bpmn self lib tr = (Inl (PyException [Lit ''Max number of retries reached.'']), tr')
         \<and> warnings tr' = [validation_warning 3 m3, validation_warning 2 m2, validation_warning 1 m1]
                            @ warnings tr
         \<and> length (calls tr') = length (calls tr) + 4))"
  using always_structurally_invalid[of self lib tr] always_grammatically_invalid[of self lib tr]
  by blast

text \<open>Both hypotheses hold of concrete facades: one that always proposes a deletion refused by the library, one that always answers the empty object.\<close>

theorem retry_caps_exhausted_witness:
  "(\<exists>tr' m1 m2 m3.
      edit_bpmn (service_with (\<lambda>ps. Inr delete_proposal)) rejecting_library [] =
        (Inl (PyException [Lit ''Max number of retries reached. Process not fully edited.'']), tr')
      \<and> warnings tr' = [validation_warning 3 m3, validation_warning 2 m2, validation_warning 1 m1]
      \<and> length (calls tr') = 4)
   \<and> (\<exists>tr' m1 m2 m3.
      edit_bpmn (service_with (\<lambda>ps. Inr (JObj []))) emptying_library [] =
        (Inl (PyException [Lit ''Max number of retries reached.'']), tr')
      \<and> warnings tr' = [validation_warning 3 m3, validation_warning 2 m2, validation_warning 1 m1]
      \<and> length (calls tr') = 4)"
proof -
  have v: "validate_llm_response delete_proposal True = Inr True"
    by (simp add: eval_defs)
  have u: "update_process rejecting_library example_process delete_proposal
             = Inl (ProcessException [Lit ''Element not found''])"
    by (simp add: eval_defs)
  have w: "validate_llm_response (JObj []) True = Inl (ValueError
      [Lit ''Function call should contain 'function' and 'arguments' keys, or a 'stop' key.''])"
    by (simp add: eval_defs)
  have s: "py_in ''stop'' delete_proposal = Inr False"
    by (simp add: eval_defs)
  show ?thesis
    using retry_caps_exhausted[of "service_with (\<lambda>ps. Inr delete_proposal)" rejecting_library "[]"]
      retry_caps_exhausted[of "service_with (\<lambda>ps. Inr (JObj []))" emptying_library "[]"]
    by (simp add: v u w s service_with_def)
qed

text \<open>
  Claim C2. A facade that always answers \<open>{"stop": true}\<close> always returns a proposal
  that is invalid as a first proposal. \<open>edit_bpmn\<close> does not fail after three validation
  attempts with the error of the proposal loop: the first validation raises the
  \<open>KeyError\<close> of \<^verbatim>\<open>response["function"]\<close>, which \<^verbatim>\<open>except ValueError\<close> does not catch, and
  \<open>edit_bpmn\<close> ends with that error after one facade call, no logged validation attempt
  and no re-prompt, whatever the edit functions are. A facade that always answers the
  empty object is refused with the validator's \<open>ValueError\<close> and does exhaust the three
  attempts.
\<close>

theorem stop_proposals_not_retried:
  "validate_llm_response stop_response True = Inl (KeyError [Lit (quoted ''function'')])
   \<and> edit_bpmn (service_with (\<lambda>ps. Inr stop_response)) lib [] =
       (Inl (KeyError [Lit (quoted ''function'')]),
        [Log Info [Lit ''Initial edit proposal: '', Val stop_response],
         Call (Prepared ''edit_bpmn.txt''
                [(''process'', [Val example_process]), (''change_request'', [Lit ''remove A''])])])
   \<and> length (calls (snd (edit_bpmn (service_with (\<lambda>ps. Inr stop_response)) lib []))) = 1
   \<and> warnings (snd (edit_bpmn (service_with (\<lambda>ps. Inr stop_response)) lib [])) = []
   \<and> fst (edit_bpmn (service_with (\<lambda>ps. Inr (JObj []))) lib [])
       = Inl (PyException [Lit ''Max number of retries reached.''])
   \<and> length (warnings (snd (edit_bpmn (service_with (\<lambda>ps. Inr (JObj []))) lib []))) = 3
   \<and> length (calls (snd (edit_bpmn (service_with (\<lambda>ps. Inr (JObj []))) lib []))) = 4"
proof -
  have v: "validate_llm_response stop_response True = Inl (KeyError [Lit (quoted ''function'')])"
    by (simp add: stop_response_def validate_llm_response_def py_if_def py_and_def py_or_def
          py_not_in_def keys_def)
  have w: "validate_llm_response (JObj []) True = Inl (ValueError
      [Lit ''Function call should contain 'function' and 'arguments' keys, or a 'stop' key.''])"
    by (simp add: validate_llm_response_def py_if_def py_and_def py_or_def py_not_in_def keys_def)
  have e: "edit_bpmn (service_with (\<lambda>ps. Inr stop_response)) lib [] =
       (Inl (KeyError [Lit (quoted ''function'')]),
        [Log Info [Lit ''Initial edit proposal: '', Val stop_response],
         Call (Prepared ''edit_bpmn.txt''
                [(''process'', [Val example_process]), (''change_request'', [Lit ''remove A''])])])"
    by (simp add: v edit_bpmn_def apply_initial_edit_def get_initial_edit_proposal_def call_def
          service_with_def initial_loop.simps)
  obtain tri where i: "apply_initial_edit (service_with (\<lambda>ps. Inr (JObj []))) lib [] =
       (Inl (PyException [Lit ''Max number of retries reached.'']), tri)"
      and wi: "length (warnings tri) = 3" and ci: "length (calls tri) = 4"
    by (simp add: w apply_initial_edit_def get_initial_edit_proposal_def call_def
          service_with_def initial_loop.simps)
  have f: "edit_bpmn (service_with (\<lambda>ps. Inr (JObj []))) lib [] =
       (Inl (PyException [Lit ''Max number of retries reached.'']), tri)"
    using i by (simp add: edit_bpmn_def del: apply_intermediate_edits.simps)
  show ?thesis
    by (simp only: e f fst_conv snd_conv v wi ci) simp
qed

lemma validate_stop: "py_in ''stop'' r = Inr True \<Longrightarrow> validate_llm_response r False = Inr True"
  by (simp add: validate_llm_response_def py_if_def py_and_def)

lemma intermediate_loop_accept:
  assumes "attempts < max_retries"
    and "self_llm_facade self (intermediate_prompt (Suc attempts) p m # calls tr) = Inr r"
    and "validate_llm_response r False = Inr ok"
  shows "intermediate_loop self p m attempts max_retries tr =
           (Inr r, Log Info [Lit ''Intermediate edit proposal: '', Val r]
                   # Call (intermediate_prompt (Suc attempts) p m) # tr)"
  using assms by (subst intermediate_loop.simps) (simp add: call_def)

lemma intermediate_loop_last:
  "intermediate_loop self p m attempts max_retries tr = (Inr r, tr') \<Longrightarrow>
   self_llm_facade self (calls tr') = Inr r"
proof (induction n \<equiv> "max_retries - attempts" arbitrary: attempts m tr)
  case 0
  then show ?case by (simp add: intermediate_loop_exit)
next
  case (Suc n)
  have IH: "\<And>m tr. intermediate_loop self p m (Suc attempts) max_retries tr = (Inr r, tr') \<Longrightarrow>
      self_llm_facade self (calls tr') = Inr r"
    using Suc.hyps(1)[of "Suc attempts"] Suc.hyps(2) by auto
  show ?case
    using Suc.prems Suc.hyps(2)
    apply (subst (asm) intermediate_loop.simps)
    apply (auto simp: call_def split: sum.splits error.splits if_splits dest: IH)
    done
qed

lemma rounds_started_simps [simp]:
  "rounds_started (Call P # tr) = (if is_round_prompt P then Suc (rounds_started tr) else rounds_started tr)"
  "rounds_started (Log l m # tr) = rounds_started tr"
  by (simp_all add: rounds_started_def)

lemma is_round_prompt_intermediate [simp]:
  "is_round_prompt (intermediate_prompt k p m) = (k = 1)"
  by (simp add: intermediate_prompt_def)

lemma intermediate_loop_rounds_later:
  "0 < attempts \<Longrightarrow>
   rounds_started (snd (intermediate_loop self p m attempts max_retries tr)) = rounds_started tr"
proof (induction n \<equiv> "max_retries - attempts" arbitrary: attempts m tr)
  case 0
  then show ?case by (simp add: intermediate_loop_exit)
next
  case (Suc n)
  have IH: "\<And>m tr. rounds_started (snd (intermediate_loop self p m (Suc attempts) max_retries tr))
     = rounds_started tr"
    using Suc.hyps(1)[of "Suc attempts"] Suc.hyps(2) by auto
  show ?case
    using Suc.hyps(2) Suc.prems
    apply (subst intermediate_loop.simps)
    apply (auto simp: call_def IH split: sum.splits error.splits)
    done
qed

lemma intermediate_loop_rounds:
  "rounds_started (snd (intermediate_loop self p m 0 max_retries tr)) \<le> rounds_started tr + 1"
  apply (subst intermediate_loop.simps)
  apply (auto simp: call_def intermediate_loop_rounds_later split: sum.splits error.splits)
  done

lemma update_loop_rounds:
  "rounds_started (snd (update_loop self lib process ep attempts max_retries tr)) = rounds_started tr"
proof (induction n \<equiv> "max_retries - attempts" arbitrary: attempts ep tr)
  case 0
  then show ?case by (simp add: update_loop_exit)
next
  case (Suc n)
  have IH: "\<And>ep tr. rounds_started (snd (update_loop self lib process ep (Suc attempts) max_retries tr))
     = rounds_started tr"
    using Suc.hyps(1)[of "Suc attempts"] Suc.hyps(2) by auto
  show ?case
    using Suc.hyps(2)
    apply (subst update_loop.simps)
    apply (auto simp: call_def IH split: sum.splits error.splits)
    done
qed

lemma apply_intermediate_edits_rounds:
  "rounds_started (snd (apply_intermediate_edits self lib p n tr)) \<le> rounds_started tr + n"
proof (induction n arbitrary: p tr)
  case 0
  then show ?case by simp
next
  case (Suc n)
  obtain r1 tr1 where g: "get_intermediate_edit_proposal self p 3 tr = (r1, tr1)"
    by (cases "get_intermediate_edit_proposal self p 3 tr")
  have b1: "rounds_started tr1 \<le> rounds_started tr + 1"
    using intermediate_loop_rounds[of self p "[]" 3 tr] g
    by (simp add: get_intermediate_edit_proposal_def)
  show ?case
  proof (cases r1)
    case (Inl e)
    then show ?thesis using g b1 by simp
  next
    case (Inr response)
    obtain r2 tr2 where u: "attempt_process_update_with_retries self lib p response 3 tr1 = (r2, tr2)"
      by (cases "attempt_process_update_with_retries self lib p response 3 tr1")
    have b2: "rounds_started tr2 = rounds_started tr1"
      using update_loop_rounds[of self lib p response 0 3 tr1] u
      by (simp add: attempt_process_update_with_retries_def)
    show ?thesis
      using g Inr u b1 b2
      by (auto split: sum.splits intro: order_trans[OF Suc.IH])
  qed
qed

lemma apply_intermediate_edits_stop:
  assumes "get_intermediate_edit_proposal self p 3 tr = (Inr r, tr1)" and "py_in ''stop'' r = Inr True"
  shows "apply_intermediate_edits self lib p (Suc n) tr
           = (Inr p, Log Info [Lit ''Edit process stopped.''] # tr1)"
  using assms by simp

lemma apply_intermediate_edits_only_stop:
  "apply_intermediate_edits self lib p n tr = (Inr q, tr') \<Longrightarrow>
   \<exists>r. self_llm_facade self (calls tr') = Inr r \<and> py_in ''stop'' r = Inr True"
proof (induction n arbitrary: p tr)
  case 0
  then show ?case by simp
next
  case (Suc n)
  obtain r1 tr1 where g: "get_intermediate_edit_proposal self p 3 tr = (r1, tr1)"
    by (cases "get_intermediate_edit_proposal self p 3 tr")
  show ?case
  proof (cases r1)
    case (Inl e)
    then show ?thesis using g Suc.prems by simp
  next
    case (Inr response)
    have last: "self_llm_facade self (calls tr1) = Inr response"
      using g Inr intermediate_loop_last[of self p "[]" 0 3 tr response tr1]
      by (simp add: get_intermediate_edit_proposal_def)
    show ?thesis
      using g Inr Suc.prems last
      by (auto split: sum.splits if_splits prod.splits dest: Suc.IH)
  qed
qed

lemma update_loop_accept:
  assumes "attempts < max_retries" and "update_process lib process ep = Inr q"
  shows "update_loop self lib process ep attempts max_retries tr = (Inr q, tr)"
  using assms by (subst update_loop.simps) simp

lemma all_rounds_complete:
  assumes H: "\<forall>ps. \<exists>r. self_llm_facade self ps = Inr r
                \<and> validate_llm_response r False = Inr True
                \<and> py_in ''stop'' r = Inr False
                \<and> (\<forall>q. \<exists>q'. update_process lib q r = Inr q')"
  shows "\<exists>tr'. apply_intermediate_edits self lib p n tr =
           (Inl (PyException [Lit ''Max number of iterations reached. Process not fully edited.'']), tr')
         \<and> rounds_started tr' = rounds_started tr + n"
proof (induction n arbitrary: p tr)
  case 0
  then show ?case by simp
next
  case (Suc n)
  obtain r where r: "self_llm_facade self (intermediate_prompt (Suc 0) p [] # calls tr) = Inr r"
      "validate_llm_response r False = Inr True" "py_in ''stop'' r = Inr False"
      "\<forall>q. \<exists>q'. update_process lib q r = Inr q'"
    using H by blast
  let ?tr1 = "Log Info [Lit ''Intermediate edit proposal: '', Val r]
                # Call (intermediate_prompt (Suc 0) p []) # tr"
  have g: "get_intermediate_edit_proposal self p 3 tr = (Inr r, ?tr1)"
    unfolding get_intermediate_edit_proposal_def
    by (rule intermediate_loop_accept) (use r in simp_all)
  obtain q' where q': "update_process lib p r = Inr q'"
    using r(4) by blast
  have u: "attempt_process_update_with_retries self lib p r 3 ?tr1 = (Inr q', ?tr1)"
    unfolding attempt_process_update_with_retries_def
    by (rule update_loop_accept) (use q' in simp_all)
  obtain tr' where t: "apply_intermediate_edits self lib q' n ?tr1 =
           (Inl (PyException [Lit ''Max number of iterations reached. Process not fully edited.'']), tr')"
       "rounds_started tr' = rounds_started ?tr1 + n"
    using Suc.IH[of q' ?tr1] by blast
  show ?case
    using g u r(3) t by simp
qed

text \<open>One round of the loop, case by case.\<close>

lemma round_stop_first_answer:
  assumes "self_llm_facade self
             (Prepared ''edit_bpmn_intermediate_step.txt'' [(''process'', [Val p])] # calls tr) = Inr r"
    and "py_in ''stop'' r = Inr True"
  shows "apply_intermediate_edits self lib p (Suc n) tr =
           (Inr p, Log Info [Lit ''Edit process stopped.'']
                   # Log Info [Lit ''Intermediate edit proposal: '', Val r]
                   # Call (Prepared ''edit_bpmn_intermediate_step.txt'' [(''process'', [Val p])])
                   # tr)"
proof -
  have "get_intermediate_edit_proposal self p 3 tr =
          (Inr r, Log Info [Lit ''Intermediate edit proposal: '', Val r]
                   # Call (intermediate_prompt (Suc 0) p []) # tr)"
    unfolding get_intermediate_edit_proposal_def
    by (rule intermediate_loop_accept[where ok = True])
       (use assms in \<open>simp_all add: validate_stop intermediate_prompt_def\<close>)
  then show ?thesis
    using assms(2) by (simp add: intermediate_prompt_def)
qed

lemma round_first_answer_accepted:
  assumes "self_llm_facade self
             (Prepared ''edit_bpmn_intermediate_step.txt'' [(''process'', [Val p])] # calls tr) = Inr r"
    and "validate_llm_response r False = Inr ok"
  shows "get_intermediate_edit_proposal self p 3 tr =
          (Inr r, Log Info [Lit ''Intermediate edit proposal: '', Val r]
                   # Call (Prepared ''edit_bpmn_intermediate_step.txt'' [(''process'', [Val p])]) # tr)"
proof -
  have "get_intermediate_edit_proposal self p 3 tr =
          (Inr r, Log Info [Lit ''Intermediate edit proposal: '', Val r]
                   # Call (intermediate_prompt (Suc 0) p []) # tr)"
    unfolding get_intermediate_edit_proposal_def
    by (rule intermediate_loop_accept[where ok = ok])
       (use assms in \<open>simp_all add: intermediate_prompt_def\<close>)
  then show ?thesis by (simp add: intermediate_prompt_def)
qed

lemma round_edit_then_stop:
  assumes a1: "self_llm_facade self
             (Prepared ''edit_bpmn_intermediate_step.txt'' [(''process'', [Val p])] # calls tr) = Inr r1"
    and v1: "validate_llm_response r1 False = Inr True"
    and n1: "py_in ''stop'' r1 = Inr False"
    and u1: "update_process lib p r1 = Inr q"
    and a2: "self_llm_facade self
             (Prepared ''edit_bpmn_intermediate_step.txt'' [(''process'', [Val q])]
              # Prepared ''edit_bpmn_intermediate_step.txt'' [(''process'', [Val p])] # calls tr) = Inr r2"
    and s2: "py_in ''stop'' r2 = Inr True"
  shows "apply_intermediate_edits self lib p (Suc (Suc n)) tr =
           (Inr q, Log Info [Lit ''Edit process stopped.'']
                   # Log Info [Lit ''Intermediate edit proposal: '', Val r2]
                   # Call (Prepared ''edit_bpmn_intermediate_step.txt'' [(''process'', [Val q])])
                   # Log Info [Lit ''Intermediate edit proposal: '', Val r1]
                   # Call (Prepared ''edit_bpmn_intermediate_step.txt'' [(''process'', [Val p])])
                   # tr)"
proof -
  let ?tr1 = "Log Info [Lit ''Intermediate edit proposal: '', Val r1]
                # Call (Prepared ''edit_bpmn_intermediate_step.txt'' [(''process'', [Val p])]) # tr"
  have g: "get_intermediate_edit_proposal self p 3 tr = (Inr r1, ?tr1)"
    using a1 v1 by (rule round_first_answer_accepted)
  have u: "attempt_process_update_with_retries self lib p r1 3 ?tr1 = (Inr q, ?tr1)"
    unfolding attempt_process_update_with_retries_def
    by (rule update_loop_accept) (use u1 in simp_all)
  have step: "apply_intermediate_edits self lib p (Suc (Suc n)) tr =
              apply_intermediate_edits self lib q (Suc n) ?tr1"
    using g n1 u by simp
  have a2': "self_llm_facade self
             (Prepared ''edit_bpmn_intermediate_step.txt'' [(''process'', [Val q])] # calls ?tr1) = Inr r2"
    using a2 by simp
  show ?thesis
    unfolding step by (rule round_stop_first_answer[OF a2' s2])
qed

lemma round_stop_after_invalid:
  assumes a1: "self_llm_facade self
             (Prepared ''edit_bpmn_intermediate_step.txt'' [(''process'', [Val p])] # calls tr) = Inr r1"
    and v1: "validate_llm_response r1 False = Inl (ValueError m)"
    and a2: "self_llm_facade self
             (Plain ([Lit ''Editing error: ''] @ m @ [Lit ''. Please provide a new edit proposal.''])
              # Prepared ''edit_bpmn_intermediate_step.txt'' [(''process'', [Val p])] # calls tr) = Inr r2"
    and s2: "py_in ''stop'' r2 = Inr True"
  shows "apply_intermediate_edits self lib p (Suc n) tr =
           (Inr p, Log Info [Lit ''Edit process stopped.'']
                   # Log Info [Lit ''Intermediate edit proposal: '', Val r2]
                   # Call (Plain ([Lit ''Editing error: ''] @ m
                                  @ [Lit ''. Please provide a new edit proposal.'']))
                   # Log Warning (validation_warning 1 m)
                   # Log Info [Lit ''Intermediate edit proposal: '', Val r1]
                   # Call (Prepared ''edit_bpmn_intermediate_step.txt'' [(''process'', [Val p])])
                   # tr)"
proof -
  let ?tr1 = "Log Warning (validation_warning (0 + 1) m)
              # Log Info [Lit ''Intermediate edit proposal: '', Val r1]
              # Call (intermediate_prompt (0 + 1) p []) # tr"
  have first: "intermediate_loop self p [] 0 3 tr = intermediate_loop self p m (0 + 1) 3 ?tr1"
    using a1 v1 by (subst intermediate_loop.simps) (simp add: call_def intermediate_prompt_def)
  have second: "intermediate_loop self p m (0 + 1) 3 ?tr1 =
      (Inr r2, Log Info [Lit ''Intermediate edit proposal: '', Val r2]
               # Call (intermediate_prompt (Suc (0 + 1)) p m) # ?tr1)"
    by (rule intermediate_loop_accept[where ok = True])
       (use a2 s2 in \<open>simp_all add: validate_stop intermediate_prompt_def\<close>)
  have g: "get_intermediate_edit_proposal self p 3 tr =
      (Inr r2, Log Info [Lit ''Intermediate edit proposal: '', Val r2]
               # Call (intermediate_prompt (Suc (0 + 1)) p m) # ?tr1)"
    unfolding get_intermediate_edit_proposal_def first second ..
  show ?thesis
    using g s2 by (simp add: intermediate_prompt_def)
qed


lemma apply_intermediate_edits_step:
  assumes "get_intermediate_edit_proposal self p 3 tr = (Inr r, tr1)"
    and "py_in ''stop'' r = Inr False"
    and "attempt_process_update_with_retries self lib p r 3 tr1 = (Inr q, tr2)"
  shows "apply_intermediate_edits self lib p (Suc n) tr = apply_intermediate_edits self lib q n tr2"
  using assms by simp

lemma apply_intermediate_edits_getter_error:
  assumes "get_intermediate_edit_proposal self p 3 tr = (Inl e, tr1)"
  shows "apply_intermediate_edits self lib p (Suc n) tr = (Inl e, tr1)"
  using assms by simp

lemma apply_intermediate_edits_update_error:
  assumes "get_intermediate_edit_proposal self p 3 tr = (Inr r, tr1)"
    and "py_in ''stop'' r = Inr False"
    and "attempt_process_update_with_retries self lib p r 3 tr1 = (Inl e, tr2)"
  shows "apply_intermediate_edits self lib p (Suc n) tr = (Inl e, tr2)"
  using assms by simp

text \<open>
  Claim C3. The intermediate loop of \<open>edit_bpmn\<close> runs on the tree the initial edit
  produced and starts at most 7 rounds. In a round:
  a validated proposal with a \<open>stop\<close> key ends the loop with the current process;
  a validated proposal without \<open>stop\<close> that is applied with success makes the next
  round run on the edited process, with one round fewer left;
  an error of the proposal getter or of the apply loop ends the loop with that error;
  with no round left the loop fails with the iteration error.
  So, when the facade answers a round's prompt with \<open>stop\<close>, the loop returns the
  process of that round; when it answers one round with a valid edit and the next
  round, whose prompt carries the edited process, with \<open>stop\<close>, the loop returns the
  edited process; and when it answers a round with an invalid proposal and the
  re-prompt with \<open>stop\<close>, the loop returns the process of that round.
  The loop returns a process only when the last answer of the facade carried
  \<open>stop\<close>; and when every round completes (a valid proposal without \<open>stop\<close>,
  applied with success) it fails after exactly 7 rounds with the iteration error.
\<close>

theorem intermediate_rounds:
  "rounds_started (snd (apply_intermediate_edits self lib p 7 tr)) \<le> rounds_started tr + 7
   \<and> (\<forall>r tr1 n. get_intermediate_edit_proposal self p 3 tr = (Inr r, tr1)
          \<longrightarrow> py_in ''stop'' r = Inr True
          \<longrightarrow> apply_intermediate_edits self lib p (Suc n) tr
                = (Inr p, Log Info [Lit ''Edit process stopped.''] # tr1))
   \<and> (\<forall>q tr'. apply_intermediate_edits self lib p 7 tr = (Inr q, tr')
          \<longrightarrow> (\<exists>r. self_llm_facade self (calls tr') = Inr r \<and> py_in ''stop'' r = Inr True))
   \<and> ((\<forall>ps. \<exists>r. self_llm_facade self ps = Inr r
                \<and> validate_llm_response r False = Inr True
                \<and> py_in ''stop'' r = Inr False
                \<and> (\<forall>q. \<exists>q'. update_process lib q r = Inr q'))
        \<longrightarrow> (\<exists>tr'. apply_intermediate_edits self lib p 7 tr =
              (Inl (PyException [Lit ''Max number of iterations reached. Process not fully edited.'']), tr')
              \<and> rounds_started tr' = rounds_started tr + 7))
   \<and> (\<forall>tr0. apply_initial_edit self lib tr0 = (Inr p, tr)
          \<longrightarrow> edit_bpmn self lib tr0 = apply_intermediate_edits self lib p 7 tr)
   \<and> (\<forall>r tr1 q tr2 n. get_intermediate_edit_proposal self p 3 tr = (Inr r, tr1)
          \<longrightarrow> py_in ''stop'' r = Inr False
          \<longrightarrow> attempt_process_update_with_retries self lib p r 3 tr1 = (Inr q, tr2)
          \<longrightarrow> apply_intermediate_edits self lib p (Suc n) tr
                = apply_intermediate_edits self lib q n tr2)
   \<and> (\<forall>e tr1 n. get_intermediate_edit_proposal self p 3 tr = (Inl e, tr1)
          \<longrightarrow> apply_intermediate_edits self lib p (Suc n) tr = (Inl e, tr1))
   \<and> (\<forall>r tr1 e tr2 n. get_intermediate_edit_proposal self p 3 tr = (Inr r, tr1)
          \<longrightarrow> py_in ''stop'' r = Inr False
          \<longrightarrow> attempt_process_update_with_retries self lib p r 3 tr1 = (Inl e, tr2)
          \<longrightarrow> apply_intermediate_edits self lib p (Suc n) tr = (Inl e, tr2))
   \<and> apply_intermediate_edits self lib p 0 tr
        = (Inl (PyException [Lit ''Max number of iterations reached. Process not fully edited.'']), tr)
   \<and> (\<forall>r n.
          self_llm_facade self
            (Prepared ''edit_bpmn_intermediate_step.txt'' [(''process'', [Val p])] # calls tr) = Inr r
          \<longrightarrow> py_in ''stop'' r = Inr True
          \<longrightarrow> apply_intermediate_edits self lib p (Suc n) tr =
                (Inr p, Log Info [Lit ''Edit process stopped.'']
                        # Log Info [Lit ''Intermediate edit proposal: '', Val r]
                        # Call (Prepared ''edit_bpmn_intermediate_step.txt'' [(''process'', [Val p])])
                        # tr))
   \<and> (\<forall>r1 q r2 n.
          self_llm_facade self
            (Prepared ''edit_bpmn_intermediate_step.txt'' [(''process'', [Val p])] # calls tr) = Inr r1
          \<longrightarrow> validate_llm_response r1 False = Inr True
          \<longrightarrow> py_in ''stop'' r1 = Inr False
          \<longrightarrow> update_process lib p r1 = Inr q
          \<longrightarrow> self_llm_facade self
                (Prepared ''edit_bpmn_intermediate_step.txt'' [(''process'', [Val q])]
                 # Prepared ''edit_bpmn_intermediate_step.txt'' [(''process'', [Val p])]
                 # calls tr) = Inr r2
          \<longrightarrow> py_in ''stop'' r2 = Inr True
          \<longrightarrow> apply_intermediate_edits self lib p (Suc (Suc n)) tr =
                (Inr q, Log Info [Lit ''Edit process stopped.'']
                        # Log Info [Lit ''Intermediate edit proposal: '', Val r2]
                        # Call (Prepared ''edit_bpmn_intermediate_step.txt'' [(''process'', [Val q])])
                        # Log Info [Lit ''Intermediate edit proposal: '', Val r1]
                        # Call (Prepared ''edit_bpmn_intermediate_step.txt'' [(''process'', [Val p])])
                        # tr))
   \<and> (\<forall>r1 m r2 n.
          self_llm_facade self
            (Prepared ''edit_bpmn_intermediate_step.txt'' [(''process'', [Val p])] # calls tr) = Inr r1
          \<longrightarrow> validate_llm_response r1 False = Inl (ValueError m)
          \<longrightarrow> self_llm_facade self
                (Plain ([Lit ''Editing error: ''] @ m @ [Lit ''. Please provide a new edit proposal.''])
                 # Prepared ''edit_bpmn_intermediate_step.txt'' [(''process'', [Val p])]
                 # calls tr) = Inr r2
          \<longrightarrow> py_in ''stop'' r2 = Inr True
          \<longrightarrow> apply_intermediate_edits self lib p (Suc n) tr =
                (Inr p, Log Info [Lit ''Edit process stopped.'']
                        # Log Info [Lit ''Intermediate edit proposal: '', Val r2]
                        # Call (Plain ([Lit ''Editing error: ''] @ m
                                       @ [Lit ''. Please provide a new edit proposal.'']))
                        # Log Warning (validation_warning 1 m)
                        # Log Info [Lit ''Intermediate edit proposal: '', Val r1]
                        # Call (Prepared ''edit_bpmn_intermediate_step.txt'' [(''process'', [Val p])])
                        # tr))"
proof (intro conjI allI impI)
  show "rounds_started (snd (apply_intermediate_edits self lib p 7 tr)) \<le> rounds_started tr + 7"
    by (rule apply_intermediate_edits_rounds)
next
  fix r tr1 n
  assume "get_intermediate_edit_proposal self p 3 tr = (Inr r, tr1)" "py_in ''stop'' r = Inr True"
  then show "apply_intermediate_edits self lib p (Suc n) tr
                = (Inr p, Log Info [Lit ''Edit process stopped.''] # tr1)"
    by (rule apply_intermediate_edits_stop)
next
  fix q tr'
  assume "apply_intermediate_edits self lib p 7 tr = (Inr q, tr')"
  then show "\<exists>r. self_llm_facade self (calls tr') = Inr r \<and> py_in ''stop'' r = Inr True"
    by (rule apply_intermediate_edits_only_stop)
next
  assume "\<forall>ps. \<exists>r. self_llm_facade self ps = Inr r
                \<and> validate_llm_response r False = Inr True
                \<and> py_in ''stop'' r = Inr False
                \<and> (\<forall>q. \<exists>q'. update_process lib q r = Inr q')"
  then show "\<exists>tr'. apply_intermediate_edits self lib p 7 tr =
              (Inl (PyException [Lit ''Max number of iterations reached. Process not fully edited.'']), tr')
              \<and> rounds_started tr' = rounds_started tr + 7"
    using all_rounds_complete[of self lib p 7 tr] by blast
next
  fix tr0
  assume "apply_initial_edit self lib tr0 = (Inr p, tr)"
  then show "edit_bpmn self lib tr0 = apply_intermediate_edits self lib p 7 tr"
    by (simp add: edit_bpmn_def del: apply_intermediate_edits.simps)
next
  fix r tr1 q tr2 n
  assume "get_intermediate_edit_proposal self p 3 tr = (Inr r, tr1)" "py_in ''stop'' r = Inr False"
    "attempt_process_update_with_retries self lib p r 3 tr1 = (Inr q, tr2)"
  then show "apply_intermediate_edits self lib p (Suc n) tr
                = apply_intermediate_edits self lib q n tr2"
    by (rule apply_intermediate_edits_step)
next
  fix e tr1 n
  assume "get_intermediate_edit_proposal self p 3 tr = (Inl e, tr1)"
  then show "apply_intermediate_edits self lib p (Suc n) tr = (Inl e, tr1)"
    by (rule apply_intermediate_edits_getter_error)
next
  fix r tr1 e tr2 n
  assume "get_intermediate_edit_proposal self p 3 tr = (Inr r, tr1)" "py_in ''stop'' r = Inr False"
    "attempt_process_update_with_retries self lib p r 3 tr1 = (Inl e, tr2)"
  then show "apply_intermediate_edits self lib p (Suc n) tr = (Inl e, tr2)"
    by (rule apply_intermediate_edits_update_error)
next
  show "apply_intermediate_edits self lib p 0 tr
        = (Inl (PyException [Lit ''Max number of iterations reached. Process not fully edited.'']), tr)"
    by simp
next
  fix r n
  assume "self_llm_facade self
            (Prepared ''edit_bpmn_intermediate_step.txt'' [(''process'', [Val p])] # calls tr) = Inr r"
    "py_in ''stop'' r = Inr True"
  then show "apply_intermediate_edits self lib p (Suc n) tr =
                (Inr p, Log Info [Lit ''Edit process stopped.'']
                        # Log Info [Lit ''Intermediate edit proposal: '', Val r]
                        # Call (Prepared ''edit_bpmn_intermediate_step.txt'' [(''process'', [Val p])])
                        # tr)"
    by (rule round_stop_first_answer)
next
  fix r1 q r2 n
  assume "self_llm_facade self
            (Prepared ''edit_bpmn_intermediate_step.txt'' [(''process'', [Val p])] # calls tr) = Inr r1"
    "validate_llm_response r1 False = Inr True" "py_in ''stop'' r1 = Inr False"
    "update_process lib p r1 = Inr q"
    "self_llm_facade self
                (Prepared ''edit_bpmn_intermediate_step.txt'' [(''process'', [Val q])]
                 # Prepared ''edit_bpmn_intermediate_step.txt'' [(''process'', [Val p])]
                 # calls tr) = Inr r2"
    "py_in ''stop'' r2 = Inr True"
  then show "apply_intermediate_edits self lib p (Suc (Suc n)) tr =
                (Inr q, Log Info [Lit ''Edit process stopped.'']
                        # Log Info [Lit ''Intermediate edit proposal: '', Val r2]
                        # Call (Prepared ''edit_bpmn_intermediate_step.txt'' [(''process'', [Val q])])
                        # Log Info [Lit ''Intermediate edit proposal: '', Val r1]
                        # Call (Prepared ''edit_bpmn_intermediate_step.txt'' [(''process'', [Val p])])
                        # tr)"
    by (rule round_edit_then_stop)
next
  fix r1 m r2 n
  assume "self_llm_facade self
            (Prepared ''edit_bpmn_intermediate_step.txt'' [(''process'', [Val p])] # calls tr) = Inr r1"
    "validate_llm_response r1 False = Inl (ValueError m)"
    "self_llm_facade self
                (Plain ([Lit ''Editing error: ''] @ m @ [Lit ''. Please provide a new edit proposal.''])
                 # Prepared ''edit_bpmn_intermediate_step.txt'' [(''process'', [Val p])]
                 # calls tr) = Inr r2"
    "py_in ''stop'' r2 = Inr True"
  then show "apply_intermediate_edits self lib p (Suc n) tr =
                (Inr p, Log Info [Lit ''Edit process stopped.'']
                        # Log Info [Lit ''Intermediate edit proposal: '', Val r2]
                        # Call (Plain ([Lit ''Editing error: ''] @ m
                                       @ [Lit ''. Please provide a new edit proposal.'']))
                        # Log Warning (validation_warning 1 m)
                        # Log Info [Lit ''Intermediate edit proposal: '', Val r1]
                        # Call (Prepared ''edit_bpmn_intermediate_step.txt'' [(''process'', [Val p])])
                        # tr)"
    by (rule round_stop_after_invalid)
qed

text \<open>A facade that answers stop, one whose deletions always succeed, one that answers
  a deletion and then stop, one whose answers are always invalid, a library that
  rejects every deletion, and a facade that answers stop after one invalid proposal.\<close>

theorem intermediate_rounds_witness:
  "(\<exists>tr'. apply_intermediate_edits (service_with (\<lambda>ps. Inr stop_response)) emptying_library
            example_process 7 [] = (Inr example_process, tr')
         \<and> rounds_started tr' = 1
         \<and> self_llm_facade (service_with (\<lambda>ps. Inr stop_response)) (calls tr') = Inr stop_response)
   \<and> (\<exists>tr'. apply_intermediate_edits (service_with (\<lambda>ps. Inr delete_proposal)) emptying_library
            example_process 7 [] =
              (Inl (PyException [Lit ''Max number of iterations reached. Process not fully edited.'']), tr')
         \<and> rounds_started tr' = 7)
   \<and> (\<exists>tr. apply_initial_edit (service_with (\<lambda>ps. Inr delete_proposal)) emptying_library []
              = (Inr (JList []), tr)
         \<and> edit_bpmn (service_with (\<lambda>ps. Inr delete_proposal)) emptying_library []
              = apply_intermediate_edits (service_with (\<lambda>ps. Inr delete_proposal)) emptying_library
                  (JList []) 7 tr)
   \<and> apply_intermediate_edits (service_with delete_then_stop) emptying_library example_process 7 []
       = apply_intermediate_edits (service_with delete_then_stop) emptying_library (JList []) 6
           [Log Info [Lit ''Intermediate edit proposal: '', Val delete_proposal],
            Call (Prepared ''edit_bpmn_intermediate_step.txt'' [(''process'', [Val example_process])])]
   \<and> apply_intermediate_edits (service_with delete_then_stop) emptying_library example_process 7 []
       = (Inr (JList []),
          [Log Info [Lit ''Edit process stopped.''],
           Log Info [Lit ''Intermediate edit proposal: '', Val stop_response],
           Call (Prepared ''edit_bpmn_intermediate_step.txt'' [(''process'', [Val (JList [])])]),
           Log Info [Lit ''Intermediate edit proposal: '', Val delete_proposal],
           Call (Prepared ''edit_bpmn_intermediate_step.txt'' [(''process'', [Val example_process])])])
   \<and> (\<exists>tr'. apply_intermediate_edits (service_with (\<lambda>ps. Inr (JObj []))) emptying_library
            example_process 7 [] =
              (Inl (PyException [Lit ''Max number of retries reached.'']), tr')
         \<and> length (calls tr') = 3 \<and> rounds_started tr' = 1)
   \<and> (\<exists>tr'. apply_intermediate_edits (service_with (\<lambda>ps. Inr delete_proposal)) rejecting_library
            example_process 7 [] =
              (Inl (PyException [Lit ''Max number of retries reached. Process not fully edited.'']), tr')
         \<and> length (calls tr') = 4 \<and> rounds_started tr' = 1)
   \<and> apply_intermediate_edits (service_with (\<lambda>ps. Inr stop_response)) rejecting_library
         example_process 7 []
       = (Inr example_process,
          [Log Info [Lit ''Edit process stopped.''],
           Log Info [Lit ''Intermediate edit proposal: '', Val stop_response],
           Call (Prepared ''edit_bpmn_intermediate_step.txt'' [(''process'', [Val example_process])])])
   \<and> (\<exists>m. validate_llm_response (JObj []) False = Inl (ValueError m)
        \<and> apply_intermediate_edits (service_with invalid_then_stop) emptying_library example_process 7 []
           = (Inr example_process,
              [Log Info [Lit ''Edit process stopped.''],
               Log Info [Lit ''Intermediate edit proposal: '', Val stop_response],
               Call (Plain ([Lit ''Editing error: ''] @ m @ [Lit ''. Please provide a new edit proposal.''])),
               Log Warning (validation_warning 1 m),
               Log Info [Lit ''Intermediate edit proposal: '', Val (JObj [])],
               Call (Prepared ''edit_bpmn_intermediate_step.txt''
                      [(''process'', [Val example_process])])]))"
proof -
  let ?S = "service_with (\<lambda>ps. Inr stop_response)"
  let ?D = "service_with (\<lambda>ps. Inr delete_proposal)"
  let ?DS = "service_with delete_then_stop"
  let ?I = "service_with (\<lambda>ps. Inr (JObj []))"
  let ?IS = "service_with invalid_then_stop"
  let ?P = "Prepared ''edit_bpmn_intermediate_step.txt'' [(''process'', [Val example_process])]"
  let ?T1 = "[Log Info [Lit ''Intermediate edit proposal: '', Val stop_response], Call ?P]"
  let ?TD = "[Log Info [Lit ''Intermediate edit proposal: '', Val delete_proposal], Call ?P]"
  have g: "get_intermediate_edit_proposal ?S example_process 3 [] = (Inr stop_response, ?T1)"
    by (simp add: eval_defs)
  have s: "py_in ''stop'' stop_response = Inr True"
    by (simp add: stop_response_def keys_def)
  have a: "apply_intermediate_edits ?S emptying_library example_process (Suc 6) []
             = (Inr example_process, Log Info [Lit ''Edit process stopped.''] # ?T1)"
    by (rule
      intermediate_rounds[THEN conjunct2, THEN conjunct1, rule_format, OF g s])
  have a7: "apply_intermediate_edits ?S emptying_library example_process 7 []
             = (Inr example_process, Log Info [Lit ''Edit process stopped.''] # ?T1)"
    using a by (simp add: eval_nat_numeral)
  have part1: "\<exists>tr'. apply_intermediate_edits ?S emptying_library example_process 7 []
                 = (Inr example_process, tr')
         \<and> rounds_started tr' = 1
         \<and> self_llm_facade ?S (calls tr') = Inr stop_response"
    using a7 by (simp add: service_with_def rounds_started_def)
  have v: "validate_llm_response delete_proposal False = Inr True"
    by (simp add: eval_defs)
  have v1: "validate_llm_response delete_proposal True = Inr True"
    by (simp add: eval_defs)
  have ns: "py_in ''stop'' delete_proposal = Inr False"
    by (simp add: eval_defs)
  have u: "\<And>q. update_process emptying_library q delete_proposal = Inr (JList [])"
    by (simp add: eval_defs)
  have H: "\<forall>ps. \<exists>r. self_llm_facade ?D ps = Inr r
                \<and> validate_llm_response r False = Inr True
                \<and> py_in ''stop'' r = Inr False
                \<and> (\<forall>q. \<exists>q'. update_process emptying_library q r = Inr q')"
    using v ns u by (simp add: service_with_def)
  have part2: "\<exists>tr'. apply_intermediate_edits ?D emptying_library example_process 7 [] =
              (Inl (PyException [Lit ''Max number of iterations reached. Process not fully edited.'']), tr')
         \<and> rounds_started tr' = 7"
    using intermediate_rounds[of ?D emptying_library example_process "[]",
            THEN conjunct2, THEN conjunct2, THEN conjunct2, THEN conjunct1] H
    by (simp add: rounds_started_def)
  obtain tr where i: "apply_initial_edit ?D emptying_library [] = (Inr (JList []), tr)"
    using v1 u[of example_process]
    by (simp add: apply_initial_edit_def get_initial_edit_proposal_def call_def service_with_def
         initial_loop.simps update_loop.simps attempt_process_update_with_retries_def)
  have part3: "edit_bpmn ?D emptying_library []
              = apply_intermediate_edits ?D emptying_library (JList []) 7 tr"
    by (rule
      intermediate_rounds[THEN conjunct2, THEN conjunct2, THEN conjunct2, THEN conjunct2,
        THEN conjunct1, rule_format, OF i])
  have f1: "self_llm_facade ?DS (?P # calls []) = Inr delete_proposal"
    by (simp add: service_with_def delete_then_stop_def)
  have f2: "self_llm_facade ?DS
              (Prepared ''edit_bpmn_intermediate_step.txt'' [(''process'', [Val (JList [])])]
               # ?P # calls []) = Inr stop_response"
    by (simp add: service_with_def delete_then_stop_def)
  have gd: "get_intermediate_edit_proposal ?DS example_process 3 [] = (Inr delete_proposal, ?TD)"
    by (simp add: eval_defs delete_then_stop_def)
  have ud: "attempt_process_update_with_retries ?DS emptying_library example_process
              delete_proposal 3 ?TD = (Inr (JList []), ?TD)"
    by (simp add: eval_defs)
  have step: "apply_intermediate_edits ?DS emptying_library example_process (Suc 6) []
       = apply_intermediate_edits ?DS emptying_library (JList []) 6 ?TD"
    by (rule
      intermediate_rounds[THEN conjunct2, THEN conjunct2, THEN conjunct2, THEN conjunct2,
        THEN conjunct2, THEN conjunct1, rule_format, OF gd ns ud])
  have part4: "apply_intermediate_edits ?DS emptying_library example_process 7 []
       = apply_intermediate_edits ?DS emptying_library (JList []) 6 ?TD"
    using step by (simp add: eval_nat_numeral)
  have es: "apply_intermediate_edits ?DS emptying_library example_process (Suc (Suc 5)) []
       = (Inr (JList []),
          Log Info [Lit ''Edit process stopped.'']
          # Log Info [Lit ''Intermediate edit proposal: '', Val stop_response]
          # Call (Prepared ''edit_bpmn_intermediate_step.txt'' [(''process'', [Val (JList [])])])
          # Log Info [Lit ''Intermediate edit proposal: '', Val delete_proposal]
          # Call ?P # [])"
    by (rule
      intermediate_rounds[THEN conjunct2, THEN conjunct2, THEN conjunct2, THEN conjunct2,
        THEN conjunct2, THEN conjunct2, THEN conjunct2, THEN conjunct2, THEN conjunct2,
        THEN conjunct2, THEN conjunct1, rule_format, OF f1 v ns u[of example_process] f2 s])
  have part5: "apply_intermediate_edits ?DS emptying_library example_process 7 []
       = (Inr (JList []),
          [Log Info [Lit ''Edit process stopped.''],
           Log Info [Lit ''Intermediate edit proposal: '', Val stop_response],
           Call (Prepared ''edit_bpmn_intermediate_step.txt'' [(''process'', [Val (JList [])])]),
           Log Info [Lit ''Intermediate edit proposal: '', Val delete_proposal],
           Call ?P])"
    using es by (simp add: eval_nat_numeral)
  obtain m where vi: "validate_llm_response (JObj []) False = Inl (ValueError m)"
    by (simp add: eval_defs)
  obtain tri where gi: "get_intermediate_edit_proposal ?I example_process 3 [] =
        (Inl (PyException [Lit ''Max number of retries reached.'']), tri)"
      and ci: "length (calls tri) = 3" and ri: "rounds_started tri = 1"
    by (simp add: eval_defs rounds_started_def)
  have ei: "apply_intermediate_edits ?I emptying_library example_process (Suc 6) [] =
        (Inl (PyException [Lit ''Max number of retries reached.'']), tri)"
    by (rule
      intermediate_rounds[THEN conjunct2, THEN conjunct2, THEN conjunct2, THEN conjunct2,
        THEN conjunct2, THEN conjunct2, THEN conjunct1, rule_format, OF gi])
  have part6: "\<exists>tr'. apply_intermediate_edits ?I emptying_library example_process 7 [] =
              (Inl (PyException [Lit ''Max number of retries reached.'']), tr')
         \<and> length (calls tr') = 3 \<and> rounds_started tr' = 1"
    using ei ci ri by (simp add: eval_nat_numeral)
  have gr: "get_intermediate_edit_proposal ?D example_process 3 [] = (Inr delete_proposal, ?TD)"
    by (simp add: eval_defs)
  obtain tru where ur: "attempt_process_update_with_retries ?D rejecting_library example_process
              delete_proposal 3 ?TD =
        (Inl (PyException [Lit ''Max number of retries reached. Process not fully edited.'']), tru)"
      and cu: "length (calls tru) = 4" and ru: "rounds_started tru = 1"
    by (simp add: eval_defs rounds_started_def)
  have er: "apply_intermediate_edits ?D rejecting_library example_process (Suc 6) [] =
        (Inl (PyException [Lit ''Max number of retries reached. Process not fully edited.'']), tru)"
    by (rule
      intermediate_rounds[THEN conjunct2, THEN conjunct2, THEN conjunct2, THEN conjunct2,
        THEN conjunct2, THEN conjunct2, THEN conjunct2, THEN conjunct1, rule_format,
        OF gr ns ur])
  have part7: "\<exists>tr'. apply_intermediate_edits ?D rejecting_library example_process 7 [] =
              (Inl (PyException [Lit ''Max number of retries reached. Process not fully edited.'']), tr')
         \<and> length (calls tr') = 4 \<and> rounds_started tr' = 1"
    using er cu ru by (simp add: eval_nat_numeral)
  have i1: "self_llm_facade ?IS (?P # calls []) = Inr (JObj [])"
    by (simp add: service_with_def invalid_then_stop_def)
  have i2: "self_llm_facade ?IS
              (Plain ([Lit ''Editing error: ''] @ m @ [Lit ''. Please provide a new edit proposal.''])
               # ?P # calls []) = Inr stop_response"
    by (simp add: service_with_def invalid_then_stop_def)
  have eis: "apply_intermediate_edits ?IS emptying_library example_process (Suc 6) []
           = (Inr example_process,
              Log Info [Lit ''Edit process stopped.'']
              # Log Info [Lit ''Intermediate edit proposal: '', Val stop_response]
              # Call (Plain ([Lit ''Editing error: ''] @ m @ [Lit ''. Please provide a new edit proposal.'']))
              # Log Warning (validation_warning 1 m)
              # Log Info [Lit ''Intermediate edit proposal: '', Val (JObj [])]
              # Call ?P # [])"
    by (rule
      intermediate_rounds[THEN conjunct2, THEN conjunct2, THEN conjunct2, THEN conjunct2,
        THEN conjunct2, THEN conjunct2, THEN conjunct2, THEN conjunct2, THEN conjunct2,
        THEN conjunct2, THEN conjunct2, rule_format, OF i1 vi i2 s])
  have part8: "\<exists>m. validate_llm_response (JObj []) False = Inl (ValueError m)
        \<and> apply_intermediate_edits ?IS emptying_library example_process 7 []
           = (Inr example_process,
              [Log Info [Lit ''Edit process stopped.''],
               Log Info [Lit ''Intermediate edit proposal: '', Val stop_response],
               Call (Plain ([Lit ''Editing error: ''] @ m @ [Lit ''. Please provide a new edit proposal.''])),
               Log Warning (validation_warning 1 m),
               Log Info [Lit ''Intermediate edit proposal: '', Val (JObj [])],
               Call ?P])"
    using vi eis by (intro exI[of _ m]) (simp add: eval_nat_numeral)
  have fs: "self_llm_facade ?S (?P # calls []) = Inr stop_response"
    by (simp add: service_with_def)
  have ss: "apply_intermediate_edits ?S rejecting_library example_process (Suc 6) []
       = (Inr example_process,
          Log Info [Lit ''Edit process stopped.'']
          # Log Info [Lit ''Intermediate edit proposal: '', Val stop_response]
          # Call ?P # [])"
    by (rule
      intermediate_rounds[THEN conjunct2, THEN conjunct2, THEN conjunct2, THEN conjunct2,
        THEN conjunct2, THEN conjunct2, THEN conjunct2, THEN conjunct2, THEN conjunct2,
        THEN conjunct1, rule_format, OF fs s])
  have part9: "apply_intermediate_edits ?S rejecting_library example_process 7 []
       = (Inr example_process,
          [Log Info [Lit ''Edit process stopped.''],
           Log Info [Lit ''Intermediate edit proposal: '', Val stop_response],
           Call ?P])"
    using ss by (simp add: eval_nat_numeral)
  show ?thesis
    using part1 part2 i part3 part4 part5 part6 part7 part9 part8 by blast
qed

text \<open>
  Claim C10. In a round, when the facade answers the round's prompt with an object
  that has a \<open>stop\<close> key, the loop returns the current process unchanged after that
  single call, whatever else the object holds and whatever the edit functions would
  do: the result does not depend on \<open>lib\<close>.
\<close>

theorem stop_wins_over_operation:
  assumes "self_llm_facade self
             (Prepared ''edit_bpmn_intermediate_step.txt'' [(''process'', [Val p])] # calls tr) = Inr r"
    and "py_in ''stop'' r = Inr True"
  shows "apply_intermediate_edits self lib p (Suc n) tr =
           (Inr p, Log Info [Lit ''Edit process stopped.'']
                   # Log Info [Lit ''Intermediate edit proposal: '', Val r]
                   # Call (Prepared ''edit_bpmn_intermediate_step.txt'' [(''process'', [Val p])])
                   # tr)"
proof -
  have "get_intermediate_edit_proposal self p 3 tr =
          (Inr r, Log Info [Lit ''Intermediate edit proposal: '', Val r]
                   # Call (intermediate_prompt (Suc 0) p []) # tr)"
    unfolding get_intermediate_edit_proposal_def
    by (rule intermediate_loop_accept[where ok = True])
       (use assms in \<open>simp_all add: validate_stop intermediate_prompt_def\<close>)
  then show ?thesis
    using assms(2) by (simp add: intermediate_prompt_def)
qed

text \<open>The answer carries stop and a well-formed deletion that the library would apply; the process comes back unchanged.\<close>

theorem stop_wins_over_operation_witness:
  "py_in ''stop'' stop_with_delete = Inr True
   \<and> update_process emptying_library example_process stop_with_delete = Inr (JList [])
   \<and> apply_intermediate_edits (service_with (\<lambda>ps. Inr stop_with_delete)) emptying_library
         example_process 7 [] =
       (Inr example_process,
        [Log Info [Lit ''Edit process stopped.''],
         Log Info [Lit ''Intermediate edit proposal: '', Val stop_with_delete],
         Call (Prepared ''edit_bpmn_intermediate_step.txt'' [(''process'', [Val example_process])])])"
proof -
  have s: "py_in ''stop'' stop_with_delete = Inr True"
    by (simp add: stop_with_delete_def keys_def)
  have u: "update_process emptying_library example_process stop_with_delete = Inr (JList [])"
    by (simp add: eval_defs)
  have f: "self_llm_facade (service_with (\<lambda>ps. Inr stop_with_delete))
             (Prepared ''edit_bpmn_intermediate_step.txt'' [(''process'', [Val example_process])]
              # calls []) = Inr stop_with_delete"
    by (simp add: service_with_def)
  show ?thesis
    using stop_wins_over_operation[OF f s, of emptying_library 6] s u
    by (simp add: eval_nat_numeral)
qed



section \<open>Properties of the process validator\<close>





















lemma validate_bpmn_Nil: "validate_bpmn supported (JList []) = Inr ()"
  by (simp add: validate_bpmn.simps)

lemma validate_bpmn_Cons:
  "validate_bpmn supported (JList (element # rest)) =
     (case validate_element supported element of Inl e \<Rightarrow> Inl e | Inr u \<Rightarrow>
     (case getitem element ''type'' of Inl e \<Rightarrow> Inl e | Inr ty \<Rightarrow>
     (case (if ty = JStr ''exclusiveGateway'' then
             (case getitem element ''branches'' of Inl e \<Rightarrow> Inl e | Inr bs \<Rightarrow>
             (case py_iter bs of Inl e \<Rightarrow> Inl e | Inr branches \<Rightarrow>
                for_each branches (\<lambda>branch.
                  case getitem branch ''path'' of Inl e \<Rightarrow> Inl e | Inr path \<Rightarrow>
                    validate_bpmn supported path)))
            else Inr ()) of Inl e \<Rightarrow> Inl e | Inr u \<Rightarrow>
     (case (if ty = JStr ''parallelGateway'' then
             (case getitem element ''branches'' of Inl e \<Rightarrow> Inl e | Inr bs \<Rightarrow>
             (case py_iter bs of Inl e \<Rightarrow> Inl e | Inr branches \<Rightarrow>
                for_each branches (\<lambda>branch. validate_bpmn supported branch)))
            else Inr ()) of Inl e \<Rightarrow> Inl e | Inr u \<Rightarrow>
      validate_bpmn supported (JList rest)))))"
  by (simp add: validate_bpmn.simps[of supported "JList (element # rest)"]
       validate_bpmn.simps[of supported "JList rest"] split: sum.splits)

lemma elements_of_Nil: "elements_of (JList []) = []"
  by (simp add: elements_of.simps)

lemma elements_of_Cons:
  "elements_of (JList (element # rest)) =
     element #
     (case getitem element ''type'' of Inl e \<Rightarrow> [] | Inr ty \<Rightarrow>
        (if ty = JStr ''exclusiveGateway'' then
           (case getitem element ''branches'' of Inl e \<Rightarrow> [] | Inr bs \<Rightarrow>
           (case py_iter bs of Inl e \<Rightarrow> [] | Inr branches \<Rightarrow>
              concat (map (\<lambda>branch.
                case getitem branch ''path'' of Inl e \<Rightarrow> [] | Inr path \<Rightarrow>
                  elements_of path) branches)))
         else [])
        @
        (if ty = JStr ''parallelGateway'' then
           (case getitem element ''branches'' of Inl e \<Rightarrow> [] | Inr bs \<Rightarrow>
           (case py_iter bs of Inl e \<Rightarrow> [] | Inr branches \<Rightarrow>
              concat (map elements_of branches)))
         else []))
     @ elements_of (JList rest)"
  by (simp add: elements_of.simps[of "JList (element # rest)"] elements_of.simps[of "JList rest"])

lemma validate_bpmn_JNum:
  "validate_bpmn supported (JNum n) = Inl (TypeError [Lit ''object is not iterable: '', Val (JNum n)])"
  by (simp add: validate_bpmn.simps[of supported "JNum n"])

lemma elements_of_JNum: "elements_of (JNum n) = []"
  by (simp add: elements_of.simps[of "JNum n"])

lemmas validator_eval =
  validate_bpmn_Nil validate_bpmn_Cons validate_bpmn_JNum
  elements_of_Nil elements_of_Cons elements_of_JNum
  validate_element_def py_if_def py_or_def py_not_in_def keys_def element_types_def
  labelled_task_def unlabelled_task_def empty_label_task_def unknown_type_element_def
  branch_without_path_def gateway_with_bad_branch_def gateway_with_number_branch_def
  nested_three_deep_def







section \<open>Facade failures\<close>

lemma create_loop_exit:
  "\<not> attempts < max_retries \<Longrightarrow>
   create_loop llm_facade supported prompt attempts max_retries tr =
     (Inl (PyException [Lit ''Max number of retries reached. Could not create the BPMN process.'']), tr)"
  by (subst create_loop.simps) simp

lemma unusable_error:
  "unusable supported r \<Longrightarrow>
   \<exists>e. (case getitem r ''process'' of Inl e \<Rightarrow> Inl e | Inr process \<Rightarrow>
          (case validate_bpmn supported process of Inl e \<Rightarrow> Inl e | Inr u \<Rightarrow> Inr process)) = Inl e"
  by (cases r) (auto split: option.splits sum.splits)

lemma unusable_info:
  "unusable supported r \<Longrightarrow>
   \<exists>info. (if r = JNull then Inr [Lit ''N/A''] else py_get_process r) = Inr info"
  by (cases r) (auto split: option.splits)

lemma create_loop_retry:
  assumes "attempts < max_retries"
    and "llm_facade (prompt # calls tr) = Inr r"
    and "unusable supported r"
  shows "\<exists>e w. create_loop llm_facade supported prompt attempts max_retries tr =
           create_loop llm_facade supported
             (Plain ([Lit ''Error: ''] @ str_of e @ [Lit ''. Try again.'']))
             (Suc attempts) max_retries (Log Warning w # Call prompt # tr)"
proof -
  obtain e where e: "(case getitem r ''process'' of Inl e \<Rightarrow> Inl e | Inr process \<Rightarrow>
          (case validate_bpmn supported process of Inl e \<Rightarrow> Inl e | Inr u \<Rightarrow> Inr process)) = Inl e"
    using unusable_error[OF assms(3)] by blast
  obtain info where info: "(if r = JNull then Inr [Lit ''N/A''] else py_get_process r) = Inr info"
    using unusable_info[OF assms(3)] by blast
  have "create_loop llm_facade supported prompt attempts max_retries tr =
           create_loop llm_facade supported
             (Plain ([Lit ''Error: ''] @ str_of e @ [Lit ''. Try again.'']))
             (Suc attempts) max_retries
             (Log Warning
                (validation_warning (attempts + 1) (str_of e)
                 @ [Lit [CHR 0x0A],
                    Lit (if r = JNull then ''LLM call failed'' else ''Invalid process''),
                    Lit '': ''] @ info
                 @ [Lit (CHR 0x0A # ''Traceback: '')] @ str_of e)
              # Call prompt # tr)"
    using assms(1,2)
    by (subst create_loop.simps) (simp add: call_def e info del: getitem.simps py_get_process.simps)
  then show ?thesis by blast
qed

lemma create_loop_all_unusable:
  assumes H: "\<forall>ps. \<exists>r. llm_facade ps = Inr r \<and> unusable supported r"
  shows "\<exists>tr'. create_loop llm_facade supported prompt attempts max_retries tr =
           (Inl (PyException
              [Lit ''Max number of retries reached. Could not create the BPMN process.'']), tr')
         \<and> length (calls tr') = length (calls tr) + (max_retries - attempts)
         \<and> length (warnings tr') = length (warnings tr) + (max_retries - attempts)"
proof (induction n \<equiv> "max_retries - attempts" arbitrary: attempts prompt tr)
  case 0
  then show ?case by (simp add: create_loop_exit)
next
  case (Suc n)
  obtain r where r: "llm_facade (prompt # calls tr) = Inr r" "unusable supported r"
    using H by blast
  have lt: "attempts < max_retries" using Suc.hyps(2) by arith
  obtain e w where step: "create_loop llm_facade supported prompt attempts max_retries tr =
           create_loop llm_facade supported
             (Plain ([Lit ''Error: ''] @ str_of e @ [Lit ''. Try again.'']))
             (Suc attempts) max_retries (Log Warning w # Call prompt # tr)"
    using create_loop_retry[of attempts max_retries llm_facade prompt tr r supported] lt r by blast
  have n: "n = max_retries - Suc attempts" using Suc.hyps(2) by arith
  show ?case
    using Suc.hyps(1)[OF n, of "Plain ([Lit ''Error: ''] @ str_of e @ [Lit ''. Try again.''])"
        "Log Warning w # Call prompt # tr"] lt
    by (auto simp: step)
qed

lemma intermediate_loop_all_raise:
  assumes H: "\<forall>ps. \<exists>m. self_llm_facade self ps = Inl (ValueError m)"
  shows "\<exists>tr'. intermediate_loop self p m0 attempts max_retries tr =
           (Inl (PyException [Lit ''Max number of retries reached.'']), tr')
         \<and> length (calls tr') = length (calls tr) + (max_retries - attempts)
         \<and> length (warnings tr') = length (warnings tr) + (max_retries - attempts)"
proof (induction n \<equiv> "max_retries - attempts" arbitrary: attempts m0 tr)
  case 0
  then show ?case by (simp add: intermediate_loop_exit)
next
  case (Suc n)
  obtain m where m: "self_llm_facade self (intermediate_prompt (attempts + 1) p m0 # calls tr)
                       = Inl (ValueError m)"
    using H by blast
  have lt: "attempts < max_retries" using Suc.hyps(2) by arith
  have step: "intermediate_loop self p m0 attempts max_retries tr =
      intermediate_loop self p m (attempts + 1) max_retries
        (Log Warning (validation_warning (attempts + 1) m)
         # Call (intermediate_prompt (attempts + 1) p m0) # tr)"
    using lt m by (subst intermediate_loop.simps) (simp add: call_def)
  have n: "n = max_retries - (attempts + 1)" using Suc.hyps(2) by arith
  show ?case
    using Suc.hyps(1)[OF n, of m "Log Warning (validation_warning (attempts + 1) m)
         # Call (intermediate_prompt (attempts + 1) p m0) # tr"] lt
    by (auto simp: step)
qed

text \<open>
  The facade failures that the loops do fold into their retry cycle. In \<open>create_bpmn\<close>
  an answer of the facade that is \<open>None\<close>, or an object without a process that
  validates, is handled like a validation failure: the error is put into the next
  prompt and one attempt is consumed, so that a facade which only gives such answers
  exhausts exactly \<open>max_retries\<close> calls. In the editor's intermediate-proposal loop a
  facade call that raises a \<open>ValueError\<close> is handled the same way and consumes one of
  the three attempts of the round.
\<close>

theorem facade_failures_folded:
  "((\<forall>ps. \<exists>r. llm_facade ps = Inr r \<and> unusable supported r) \<longrightarrow>
      (\<exists>tr'. create_bpmn llm_facade supported message_history max_retries tr =
           (Inl (PyException
              [Lit ''Max number of retries reached. Could not create the BPMN process.'']), tr')
         \<and> length (calls tr') = length (calls tr) + max_retries
         \<and> length (warnings tr') = length (warnings tr) + max_retries))
   \<and> (\<forall>prompt attempts r. attempts < max_retries \<longrightarrow> llm_facade (prompt # calls tr) = Inr r
         \<longrightarrow> unusable supported r \<longrightarrow>
         (\<exists>e w. create_loop llm_facade supported prompt attempts max_retries tr =
            create_loop llm_facade supported
              (Plain ([Lit ''Error: ''] @ str_of e @ [Lit ''. Try again.'']))
              (Suc attempts) max_retries (Log Warning w # Call prompt # tr)))
   \<and> ((\<forall>ps. \<exists>m. self_llm_facade self ps = Inl (ValueError m)) \<longrightarrow>
      (\<exists>tr'. get_intermediate_edit_proposal self p 3 tr =
           (Inl (PyException [Lit ''Max number of retries reached.'']), tr')
         \<and> length (calls tr') = length (calls tr) + 3
         \<and> length (warnings tr') = length (warnings tr) + 3))"
  using create_loop_all_unusable[of llm_facade supported _ 0 max_retries tr]
    intermediate_loop_all_raise[of self p "[]" 0 3 tr]
    create_loop_retry[of _ max_retries llm_facade _ tr _ supported]
  by (simp add: create_bpmn_def get_intermediate_edit_proposal_def)

text \<open>A facade that always answers \<open>None\<close>, one that always answers a process with an
  unlabelled task, and one that always raises the provider's \<open>ValueError\<close>.\<close>

theorem facade_failures_folded_witness:
  "(\<exists>tr'. create_bpmn (\<lambda>ps. Inr JNull) element_types ''order handling'' 3 [] =
           (Inl (PyException
              [Lit ''Max number of retries reached. Could not create the BPMN process.'']), tr')
         \<and> length (calls tr') = 3 \<and> length (warnings tr') = 3)
   \<and> (\<exists>e w. create_loop (\<lambda>ps. Inr (JObj [(''process'', JList [unlabelled_task])])) element_types
               (Prepared ''create_bpmn.txt'' [(''message_history'', [Lit ''order handling''])]) 0 3 [] =
            create_loop (\<lambda>ps. Inr (JObj [(''process'', JList [unlabelled_task])])) element_types
              (Plain ([Lit ''Error: ''] @ str_of e @ [Lit ''. Try again.'']))
              (Suc 0) 3
              [Log Warning w,
               Call (Prepared ''create_bpmn.txt'' [(''message_history'', [Lit ''order handling''])])])
   \<and> (\<exists>tr'. get_intermediate_edit_proposal (service_with (\<lambda>ps. Inl empty_response_error))
              example_process 3 [] =
           (Inl (PyException [Lit ''Max number of retries reached.'']), tr')
         \<and> length (calls tr') = 3 \<and> length (warnings tr') = 3)"
proof -
  have u: "unusable element_types (JObj [(''process'', JList [unlabelled_task])])"
    by (simp add: validator_eval)
  note t1 = facade_failures_folded[of "\<lambda>ps. Inr JNull" element_types "''order handling''" 3 "[]"
      "service_with (\<lambda>ps. Inl empty_response_error)" example_process]
  note t2 = facade_failures_folded[of "\<lambda>ps. Inr (JObj [(''process'', JList [unlabelled_task])])"
      element_types "''order handling''" 3 "[]"
      "service_with (\<lambda>ps. Inl empty_response_error)" example_process]
  have p1: "\<exists>tr'. create_bpmn (\<lambda>ps. Inr JNull) element_types ''order handling'' 3 [] =
           (Inl (PyException
              [Lit ''Max number of retries reached. Could not create the BPMN process.'']), tr')
         \<and> length (calls tr') = 3 \<and> length (warnings tr') = 3"
    using t1 by simp
  have p2: "\<exists>e w. create_loop (\<lambda>ps. Inr (JObj [(''process'', JList [unlabelled_task])])) element_types
               (Prepared ''create_bpmn.txt'' [(''message_history'', [Lit ''order handling''])]) 0 3 [] =
            create_loop (\<lambda>ps. Inr (JObj [(''process'', JList [unlabelled_task])])) element_types
              (Plain ([Lit ''Error: ''] @ str_of e @ [Lit ''. Try again.'']))
              (Suc 0) 3
              [Log Warning w,
               Call (Prepared ''create_bpmn.txt'' [(''message_history'', [Lit ''order handling''])])]"
    using t2 u by simp
  have p3: "\<exists>tr'. get_intermediate_edit_proposal (service_with (\<lambda>ps. Inl empty_response_error))
              example_process 3 [] =
           (Inl (PyException [Lit ''Max number of retries reached.'']), tr')
         \<and> length (calls tr') = 3 \<and> length (warnings tr') = 3"
    using t1 by (simp add: service_with_def empty_response_error_def)
  show ?thesis using p1 p2 p3 by blast
qed

text \<open>
  Claim C9. A failing facade call is not folded into the retry cycle of either
  orchestrator. When the facade raises (here the provider's \<open>ValueError\<close> for an empty
  response), \<open>create_bpmn\<close> ends with that error after the first call, with two of its
  three attempts unused and nothing logged: the call stands before the \<^verbatim>\<open>try\<close>. So
  does \<open>edit_bpmn\<close>, whose first call stands outside the loop. Raised on the re-prompt
  of the apply loop, which stands inside the \<^verbatim>\<open>except\<close> handler, the error ends
  \<open>edit_bpmn\<close> after one logged apply attempt. And the answer \<open>None\<close> ends \<open>edit_bpmn\<close>
  with a \<open>TypeError\<close> after one call.
\<close>

theorem facade_failure_propagates:
  "create_bpmn (\<lambda>ps. Inl empty_response_error) element_types ''order handling'' 3 [] =
     (Inl empty_response_error,
      [Call (Prepared ''create_bpmn.txt'' [(''message_history'', [Lit ''order handling''])])])
   \<and> edit_bpmn (service_with (\<lambda>ps. Inl empty_response_error)) emptying_library [] =
     (Inl empty_response_error,
      [Call (Prepared ''edit_bpmn.txt''
               [(''process'', [Val example_process]), (''change_request'', [Lit ''remove A''])])])
   \<and> fst (edit_bpmn (service_with (\<lambda>ps. if length ps = 1 then Inr delete_proposal
                                        else Inl empty_response_error)) rejecting_library [])
       = Inl empty_response_error
   \<and> length (warnings (snd (edit_bpmn (service_with (\<lambda>ps. if length ps = 1 then Inr delete_proposal
                                        else Inl empty_response_error)) rejecting_library []))) = 1
   \<and> fst (edit_bpmn (service_with (\<lambda>ps. Inr JNull)) emptying_library [])
       = Inl (TypeError [Lit ''argument is not iterable: '', Val JNull])
   \<and> length (calls (snd (edit_bpmn (service_with (\<lambda>ps. Inr JNull)) emptying_library []))) = 1"
proof -
  have v: "validate_llm_response delete_proposal True = Inr True"
    by (simp add: eval_defs)
  have u: "update_process rejecting_library example_process delete_proposal
             = Inl (ProcessException [Lit ''Element not found''])"
    by (simp add: eval_defs)
  have n: "validate_llm_response JNull True = Inl (TypeError [Lit ''argument is not iterable: '', Val JNull])"
    by (simp add: validate_llm_response_def py_if_def py_and_def py_or_def py_not_in_def)
  show ?thesis
    by (simp add: create_bpmn_def create_loop.simps edit_bpmn_def apply_initial_edit_def
          get_initial_edit_proposal_def attempt_process_update_with_retries_def call_def
          service_with_def initial_loop.simps update_loop.simps v u n)
qed

end
